theory Spec2Isabelle
  imports Complex_Main
begin

section \<open>Numbers, vectors, matrices and failures\<close>

text \<open>
  The C++ type \<^verbatim>\<open>double\<close> is modelled by \<^typ>\<open>real\<close>: rounding, infinities and NaN are
  outside the model. An \<^verbatim>\<open>Eigen::VectorXd\<close> is a \<^typ>\<open>real list\<close>, an
  \<^verbatim>\<open>Eigen::MatrixXd\<close> is the list of its rows. Every way in which the source stops
  instead of returning is a value of the type \<open>error\<close>:
  \<^item> \<open>Assertion_Failed\<close>: an \<^verbatim>\<open>assert\<close> written in the source fails;
  \<^item> \<open>Eigen_Assertion\<close>: a range or size check inside an Eigen operation fails
    (a row index past the end, operands of different sizes, \<^verbatim>\<open>minCoeff\<close> of nothing);
  \<^item> \<open>Non_Finite\<close>: a division by zero, whose IEEE result (infinity or NaN) is no real;
  \<^item> \<open>Out_Of_Bounds\<close>: \<^verbatim>\<open>operator[]\<close> of a \<^verbatim>\<open>std::vector\<close> past its size;
  \<^item> \<open>Null_Dereference\<close>: a member call through a \<^verbatim>\<open>NULL\<close> pointer;
  \<^item> \<open>Dangling_Pointer\<close>: a pointer to no live object.
\<close>

datatype error =
    Assertion_Failed
  | Eigen_Assertion
  | Non_Finite
  | Out_Of_Bounds
  | Null_Dereference
  | Dangling_Pointer

text \<open>
  A computation that may fail is followed by the rest of the function only if it
  returns; a failure ends the function, as an abort does.
\<close>

definition bind_error :: "error + 'a \<Rightarrow> ('a \<Rightarrow> error + 'b) \<Rightarrow> error + 'b" where
  "bind_error m f = (case m of Inl e \<Rightarrow> Inl e | Inr x \<Rightarrow> f x)"

type_synonym VectorXd = "real list"
type_synonym MatrixXd = "real list list"

text \<open>\<^verbatim>\<open>v.array().pow(2).sum()\<close> and \<^verbatim>\<open>v.squaredNorm()\<close> of a vector.\<close>

definition squaredNorm :: "VectorXd \<Rightarrow> real" where
  "squaredNorm v = sum_list (map (\<lambda>x. x\<^sup>2) v)"

text \<open>\<^verbatim>\<open>m.array().pow(2).sum()\<close> of a matrix: the squares of all its entries.\<close>

definition array_pow2_sum :: "MatrixXd \<Rightarrow> real" where
  "array_pow2_sum m = sum_list (map squaredNorm m)"

text \<open>\<^verbatim>\<open>a - b\<close> on two vectors; Eigen requires equal sizes.\<close>

definition vec_minus :: "VectorXd \<Rightarrow> VectorXd \<Rightarrow> error + VectorXd" where
  "vec_minus a b =
     (if length a = length b then Inr (map2 (-) a b) else Inl Eigen_Assertion)"

text \<open>\<^verbatim>\<open>m.rowwise() - v.transpose()\<close>: every row of \<open>m\<close> must have the size of \<open>v\<close>.\<close>

definition rowwise_minus :: "MatrixXd \<Rightarrow> VectorXd \<Rightarrow> error + MatrixXd" where
  "rowwise_minus m v =
     (if list_all (\<lambda>r. length r = length v) m
      then Inr (map (\<lambda>r. map2 (-) r v) m)
      else Inl Eigen_Assertion)"

text \<open>\<^verbatim>\<open>v.minCoeff()\<close>: Eigen asserts that there is at least one coefficient.\<close>

fun minCoeff :: "VectorXd \<Rightarrow> error + real" where
  "minCoeff [] = Inl Eigen_Assertion"
| "minCoeff (x # xs) = Inr (fold min xs x)"

text \<open>\<^verbatim>\<open>m.row(i)\<close> and \<^verbatim>\<open>m.bottomRows(n)\<close>, with Eigen's range checks.\<close>

definition row :: "MatrixXd \<Rightarrow> nat \<Rightarrow> error + VectorXd" where
  "row m i = (if i < length m then Inr (m ! i) else Inl Eigen_Assertion)"

definition bottomRows :: "MatrixXd \<Rightarrow> nat \<Rightarrow> error + MatrixXd" where
  "bottomRows m n =
     (if n \<le> length m then Inr (drop (length m - n) m) else Inl Eigen_Assertion)"

section \<open>TaskViapoint\<close>

text \<open>The fields of the class \<^verbatim>\<open>TaskViapoint\<close> (the source's names end in an underscore).\<close>

record TaskViapoint =
  viapoint :: VectorXd
  viapoint_time :: real
  viapoint_radius :: real
  goal :: VectorXd
  goal_time :: real
  viapoint_weight :: real
  acceleration_weight :: real
  goal_weight :: real

text \<open>
  The three constructors. The header that declares \<^verbatim>\<open>TIME_AT_MINIMUM_DIST\<close> is not among
  the sources, so the sentinel is a parameter of every function that reads it.
\<close>

definition TaskViapoint3 :: "VectorXd \<Rightarrow> real \<Rightarrow> real \<Rightarrow> error + TaskViapoint" where
  "TaskViapoint3 vp vp_time vp_radius =
     (if vp_radius \<ge> 0
      then Inr \<lparr>viapoint = vp, viapoint_time = vp_time, viapoint_radius = vp_radius,
                goal = replicate (length vp) 1, goal_time = - 1,
                viapoint_weight = 1, acceleration_weight = 1 / 10000, goal_weight = 0\<rparr>
      else Inl Assertion_Failed)"

definition TaskViapoint4 :: "VectorXd \<Rightarrow> real \<Rightarrow> VectorXd \<Rightarrow> real \<Rightarrow> error + TaskViapoint" where
  "TaskViapoint4 vp vp_time g g_time =
     (if length vp = length g
      then Inr \<lparr>viapoint = vp, viapoint_time = vp_time, viapoint_radius = 0,
                goal = g, goal_time = g_time,
                viapoint_weight = 1, acceleration_weight = 1 / 10000, goal_weight = 1\<rparr>
      else Inl Assertion_Failed)"

definition TaskViapoint8 ::
  "VectorXd \<Rightarrow> real \<Rightarrow> real \<Rightarrow> VectorXd \<Rightarrow> real \<Rightarrow> real \<Rightarrow> real \<Rightarrow> real \<Rightarrow> error + TaskViapoint" where
  "TaskViapoint8 vp vp_time vp_radius g g_time vp_weight acc_weight g_weight =
     (if vp_radius \<ge> 0
      then if length vp = length g
           then Inr \<lparr>viapoint = vp, viapoint_time = vp_time, viapoint_radius = vp_radius,
                     goal = g, goal_time = g_time,
                     viapoint_weight = vp_weight, acceleration_weight = acc_weight,
                     goal_weight = g_weight\<rparr>
           else Inl Assertion_Failed
      else Inl Assertion_Failed)"

definition setCostFunctionWeighting :: "real \<Rightarrow> real \<Rightarrow> real \<Rightarrow> TaskViapoint \<Rightarrow> TaskViapoint" where
  "setCostFunctionWeighting vp_weight acc_weight g_weight task =
     task\<lparr>viapoint_weight := vp_weight, acceleration_weight := acc_weight,
          goal_weight := g_weight\<rparr>"

definition getNumberOfCostComponents :: "TaskViapoint \<Rightarrow> nat" where
  "getNumberOfCostComponents task = 3"

subsection \<open>computeCosts\<close>

text \<open>
  The forward scan
  \<^verbatim>\<open>while (step < ts.size() && ts[step] < t) step++;\<close>
  started at \<open>step\<close>.
\<close>

function time_step_scan :: "VectorXd \<Rightarrow> real \<Rightarrow> nat \<Rightarrow> nat" where
  "time_step_scan ts t step =
     (if step < length ts \<and> ts ! step < t then time_step_scan ts t (Suc step) else step)"
  by pat_completeness auto
termination
  by (relation "measure (\<lambda>(ts, t, step). length ts - step)") auto

declare time_step_scan.simps [simp del]

text \<open>Line 74: the minimum over the samples of the squared norm of \<open>y - viapoint\<close>.\<close>

definition dist_at_minimum :: "TaskViapoint \<Rightarrow> MatrixXd \<Rightarrow> error + real" where
  "dist_at_minimum task y =
     (case rowwise_minus y (viapoint task) of
        Inl e \<Rightarrow> Inl e
      | Inr d \<Rightarrow> minCoeff (map squaredNorm d))"

text \<open>Lines 81 to 88: the distance at the first sample not before the viapoint's time.\<close>

definition dist_at_time :: "TaskViapoint \<Rightarrow> VectorXd \<Rightarrow> MatrixXd \<Rightarrow> error + real" where
  "dist_at_time task ts y =
     (let viapoint_time_step = time_step_scan ts (viapoint_time task) 0 in
      if viapoint_time_step < length ts
      then (case row y viapoint_time_step of
              Inl e \<Rightarrow> Inl e
            | Inr y_via \<Rightarrow>
                (case vec_minus y_via (viapoint task) of
                   Inl e \<Rightarrow> Inl e
                 | Inr d \<Rightarrow> Inr (sqrt (squaredNorm d))))
      else Inl Assertion_Failed)"

text \<open>Lines 68 to 98: \<^verbatim>\<open>dist_to_viapoint\<close> at the end of the first block.\<close>

definition dist_to_viapoint :: "real \<Rightarrow> TaskViapoint \<Rightarrow> VectorXd \<Rightarrow> MatrixXd \<Rightarrow> error + real" where
  "dist_to_viapoint TIME_AT_MINIMUM_DIST task ts y =
     (if viapoint_weight task \<noteq> 0
      then (case (if viapoint_time task = TIME_AT_MINIMUM_DIST
                  then dist_at_minimum task y
                  else dist_at_time task ts y) of
              Inl e \<Rightarrow> Inl e
            | Inr d \<Rightarrow>
                Inr (if viapoint_radius task > 0
                     then (if d - viapoint_radius task < 0 then 0
                           else d - viapoint_radius task)
                     else d))
      else Inr 0)"

text \<open>
  Lines 100 to 105: \<^verbatim>\<open>mean_ydd\<close>. The divisor is \<^verbatim>\<open>n_time_steps = ts.size()\<close>; with no
  time step the quotient is not a number.
\<close>

definition mean_ydd :: "TaskViapoint \<Rightarrow> VectorXd \<Rightarrow> MatrixXd \<Rightarrow> error + real" where
  "mean_ydd task ts ydd =
     (if acceleration_weight task \<noteq> 0
      then (if length ts = 0 then Inl Non_Finite
            else Inr (array_pow2_sum ydd / real (length ts)))
      else Inr 0)"

text \<open>Lines 107 to 119: \<^verbatim>\<open>delay_cost\<close>.\<close>

definition delay_cost :: "TaskViapoint \<Rightarrow> VectorXd \<Rightarrow> MatrixXd \<Rightarrow> error + real" where
  "delay_cost task ts y =
     (if goal_weight task \<noteq> 0
      then (let goal_time_step = time_step_scan ts (goal_time task) 0 in
            case bottomRows y (length ts - goal_time_step) of
              Inl e \<Rightarrow> Inl e
            | Inr y_after_goal \<Rightarrow>
                (case rowwise_minus y_after_goal (goal task) of
                   Inl e \<Rightarrow> Inl e
                 | Inr d \<Rightarrow> Inr (sum_list (map squaredNorm d))))
      else Inr 0)"

text \<open>Lines 121 to 126: the cost vector, written slot by slot.\<close>

definition costs_vector :: "TaskViapoint \<Rightarrow> real \<Rightarrow> real \<Rightarrow> real \<Rightarrow> VectorXd" where
  "costs_vector task d m g =
     (let n_cost_components = 3;
          costs = replicate (1 + n_cost_components) 0;
          costs = costs[1 := viapoint_weight task * d];
          costs = costs[2 := acceleration_weight task * m];
          costs = costs[3 := goal_weight task * g];
          costs = costs[0 := costs ! 1 + costs ! 2 + costs ! 3]
      in costs)"

definition computeCosts ::
  "real \<Rightarrow> TaskViapoint \<Rightarrow> VectorXd \<Rightarrow> MatrixXd \<Rightarrow> MatrixXd \<Rightarrow> error + VectorXd" where
  "computeCosts TIME_AT_MINIMUM_DIST task ts y ydd =
     (case dist_to_viapoint TIME_AT_MINIMUM_DIST task ts y of
        Inl e \<Rightarrow> Inl e
      | Inr d \<Rightarrow>
          (case mean_ydd task ts ydd of
             Inl e \<Rightarrow> Inl e
           | Inr m \<Rightarrow>
               (case delay_cost task ts y of
                  Inl e \<Rightarrow> Inl e
                | Inr g \<Rightarrow> Inr (costs_vector task d m g))))"

text \<open>
  Two quantities in the words of the specification, to compare the code with: the
  Euclidean distance from the viapoint to the nearest sample of the position trajectory,
  and the mean of the squared accelerations over all \<open>T * D\<close> entries.
\<close>

definition euclidean_minimum_distance :: "MatrixXd \<Rightarrow> VectorXd \<Rightarrow> real" where
  "euclidean_minimum_distance y vp = Min (set (map (\<lambda>r. sqrt (squaredNorm (map2 (-) r vp))) y))"

definition mean_of_squares :: "MatrixXd \<Rightarrow> nat \<Rightarrow> nat \<Rightarrow> real" where
  "mean_of_squares ydd T D = array_pow2_sum ydd / real (T * D)"

subsection \<open>Files\<close>

text \<open>
  What a \<^verbatim>\<open>std::ofstream\<close> receives: a \<^verbatim>\<open>double\<close>, a string, or \<^verbatim>\<open>endl\<close>. The
  text that \<^verbatim>\<open>operator<<\<close> prints for a \<^verbatim>\<open>double\<close> is not modelled: a number is
  stored and read back as it is. A file system says which names can be opened for
  writing and what each file holds.
\<close>

datatype out_item = Dbl real | Str string | Endl

record filesystem =
  can_open :: "string \<Rightarrow> bool"
  contents :: "string \<Rightarrow> out_item list option"

text \<open>
  An \<^verbatim>\<open>ofstream\<close> is open on a (truncated) file, \<open>Some\<close> of what was written so far,
  or in the failed state \<open>None\<close>, where every insertion is ignored.
\<close>

type_synonym ofstream = "out_item list option"

definition ofstream_open :: "filesystem \<Rightarrow> string \<Rightarrow> ofstream" where
  "ofstream_open fs filename = (if can_open fs filename then Some [] else None)"

definition is_open :: "ofstream \<Rightarrow> bool" where
  "is_open file = (file \<noteq> None)"

definition put :: "out_item \<Rightarrow> ofstream \<Rightarrow> ofstream" where
  "put item file = (case file of None \<Rightarrow> None | Some written \<Rightarrow> Some (written @ [item]))"

definition ofstream_close :: "filesystem \<Rightarrow> string \<Rightarrow> ofstream \<Rightarrow> filesystem" where
  "ofstream_close fs filename file =
     (case file of
        None \<Rightarrow> fs
      | Some written \<Rightarrow> fs\<lparr>contents := (contents fs)(filename := Some written)\<rparr>)"

text \<open>\<^verbatim>\<open>for (ii...) myfile << v[ii] << " ";\<close>\<close>

definition put_vector :: "VectorXd \<Rightarrow> ofstream \<Rightarrow> ofstream" where
  "put_vector v file = fold (\<lambda>x f. put (Str '' '') (put (Dbl x) f)) v file"

definition put_double :: "real \<Rightarrow> ofstream \<Rightarrow> ofstream" where
  "put_double x file = put (Str '' '') (put (Dbl x) file)"

text \<open>\<^verbatim>\<open>TaskViapoint::writeToFile\<close>: the new file system and the returned \<^verbatim>\<open>bool\<close>.\<close>

definition writeToFile :: "filesystem \<Rightarrow> string \<Rightarrow> TaskViapoint \<Rightarrow> filesystem \<times> bool" where
  "writeToFile fs filename task =
     (let myfile = ofstream_open fs filename;
          myfile = put_vector (viapoint task) myfile;
          myfile = put_double (viapoint_time task) myfile;
          myfile = put_double (viapoint_radius task) myfile;
          myfile = put_vector (goal task) myfile;
          myfile = put_double (goal_time task) myfile;
          myfile = put_double (viapoint_weight task) myfile;
          myfile = put_double (acceleration_weight task) myfile;
          myfile = put_double (goal_weight task) myfile
      in (ofstream_close fs filename myfile, True))"

text \<open>The numbers of a task in the order in which \<^verbatim>\<open>writeToFile\<close> inserts them.\<close>

definition task_fields :: "TaskViapoint \<Rightarrow> real list" where
  "task_fields task =
     viapoint task @ [viapoint_time task, viapoint_radius task] @ goal task @
     [goal_time task, viapoint_weight task, acceleration_weight task, goal_weight task]"

text \<open>
  \<^verbatim>\<open>TaskViapoint::savePlotRolloutScript\<close>. The lines of the Python script that do not
  depend on the task are kept as the strings the source writes.
\<close>

fun put_viapoint_list :: "VectorXd \<Rightarrow> nat \<Rightarrow> ofstream \<Rightarrow> ofstream" where
  "put_viapoint_list [] ii file = file"
| "put_viapoint_list (x # xs) ii file =
     put_viapoint_list xs (Suc ii)
       (put (Dbl x) (if ii > 0 then put (Str '', '') file else file))"

definition put_line :: "string \<Rightarrow> ofstream \<Rightarrow> ofstream" where
  "put_line s file = put Endl (put (Str s) file)"

definition savePlotRolloutScript :: "filesystem \<Rightarrow> string \<Rightarrow> TaskViapoint \<Rightarrow> filesystem \<times> bool" where
  "savePlotRolloutScript fs directory task =
     (let filename = directory @ ''/plotRollout.py'';
          file = ofstream_open fs filename
      in if \<not> is_open file then (fs, False)
         else
           (let file = put_line ''import numpy as np'' file;
                file = put_line ''import matplotlib.pyplot as plt'' file;
                file = put_line ''import sys, os'' file;
                file = put_line ''def plotRollout(cost_vars,ax):'' file;
                file = put (Str ''    viapoint = ['') file;
                file = put_viapoint_list (viapoint task) 0 file;
                file = put_line '']'' file;
                file = put Endl (put (Dbl (viapoint_time task)) (put (Str ''    viapoint_time = '') file));
                file = put_line ''    # y      yd     ydd    1  forcing'' file;
                file = put_line ''    # n_dofs n_dofs n_dofs ts n_dofs'' file;
                file = put_line ''    n_dofs = len(viapoint)'' file;
                file = put_line ''    y = cost_vars[:,0:n_dofs]'' file;
                file = put_line ''    t = cost_vars[:,3*n_dofs]'' file;
                file = (if length (viapoint task) = 1
                        then put_line ''    ax.plot(viapoint_time,viapoint,'ok')''
                               (put_line ''    line_handles = ax.plot(t,y,linewidth=0.5)'' file)
                        else put_line ''    ax.plot(viapoint[0],viapoint[1],'ok')''
                               (put_line ''    line_handles = ax.plot(y[:,0],y[:,1],linewidth=0.5)'' file));
                file = put_line ''    return line_handles'' file;
                file = put_line [] file;
                file = put_line ''if __name__=='__main__':'' file;
                file = put_line ''    # See if input directory was passed'' file;
                file = put_line ''    if (len(sys.argv)==2):'' file;
                file = put_line ''      directory = str(sys.argv[1])'' file;
                file = put_line ''    else:'' file;
                file = put_line ''      print 'Usage: '+sys.argv[0]+' <directory>';'' file;
                file = put_line ''      sys.exit()'' file;
                file = put_line (''    cost_vars = np.loadtxt(directory+'' @ [CHR 0x22] @
                                 ''/cost_vars.txt'' @ [CHR 0x22] @ '')'') file;
                file = put_line ''    fig = plt.figure()'' file;
                file = put_line ''    ax = fig.gca()'' file;
                file = put_line ''    plotRollout(cost_vars,ax)'' file;
                file = put_line ''    plt.show()'' file
            in (ofstream_close fs filename file, True)))"

text \<open>
  Modelled from the spec: \<^verbatim>\<open>loadMatrix\<close> of \<^verbatim>\<open>dmpbbo_io/EigenFileIO.hpp\<close>, which is not
  among the sources. The spec describes the task file as a single-row numeric record of
  fields; here a file is cut into lines at each \<^verbatim>\<open>endl\<close>, the numbers of a line are the
  fields of a row, strings only separate them, and a line with no number gives no row.
  A file that does not exist gives the matrix with no row.
\<close>

fun split_lines :: "out_item list \<Rightarrow> out_item list \<Rightarrow> out_item list list" where
  "split_lines [] line = [line]"
| "split_lines (Endl # items) line = line # split_lines items []"
| "split_lines (item # items) line = split_lines items (line @ [item])"

fun numbers_of :: "out_item list \<Rightarrow> real list" where
  "numbers_of [] = []"
| "numbers_of (Dbl x # items) = x # numbers_of items"
| "numbers_of (item # items) = numbers_of items"

definition loadMatrix :: "filesystem \<Rightarrow> string \<Rightarrow> MatrixXd" where
  "loadMatrix fs filename =
     (case contents fs filename of
        None \<Rightarrow> []
      | Some items \<Rightarrow> filter (\<lambda>r. r \<noteq> []) (map numbers_of (split_lines items [])))"

text \<open>
  Eigen's \<^verbatim>\<open>v[i]\<close>, \<^verbatim>\<open>v.head(n)\<close> and \<^verbatim>\<open>v.segment(i, n)\<close> on \<^verbatim>\<open>int\<close> arguments, with
  their range checks, and the division of \<^verbatim>\<open>int\<close>, which truncates towards zero.
\<close>

definition coeff :: "VectorXd \<Rightarrow> int \<Rightarrow> error + real" where
  "coeff v i =
     (if 0 \<le> i \<and> i < int (length v) then Inr (v ! nat i) else Inl Eigen_Assertion)"

definition segment :: "VectorXd \<Rightarrow> int \<Rightarrow> int \<Rightarrow> error + VectorXd" where
  "segment v i n =
     (if 0 \<le> i \<and> 0 \<le> n \<and> i + n \<le> int (length v)
      then Inr (take (nat n) (drop (nat i) v))
      else Inl Eigen_Assertion)"

definition head :: "VectorXd \<Rightarrow> int \<Rightarrow> error + VectorXd" where
  "head v n = segment v 0 n"

definition int_div :: "int \<Rightarrow> int \<Rightarrow> int" where
  "int_div a b = sgn a * sgn b * (\<bar>a\<bar> div \<bar>b\<bar>)"

text \<open>
  \<^verbatim>\<open>TaskViapoint::readFromFile\<close>. It reads the eight fields in the source's order and ends
  in the constructor with eight arguments.
\<close>

definition readFromFile :: "real \<Rightarrow> filesystem \<Rightarrow> string \<Rightarrow> error + TaskViapoint" where
  "readFromFile TIME_AT_MINIMUM_DIST fs filename =
     bind_error (row (loadMatrix fs filename) 0) (\<lambda>vector.
       let n_dims = int_div (int (length vector) - 6) 2 in
       bind_error (head vector n_dims) (\<lambda>vp.
       bind_error (coeff vector n_dims) (\<lambda>vp_time_read.
         let vp_time = (if vp_time_read < 0 then TIME_AT_MINIMUM_DIST else vp_time_read) in
         bind_error (coeff vector (n_dims + 1)) (\<lambda>vp_radius.
         bind_error (segment vector (n_dims + 2) n_dims) (\<lambda>g.
         bind_error (coeff vector (2 * n_dims + 2)) (\<lambda>g_time.
         bind_error (coeff vector (2 * n_dims + 3)) (\<lambda>vp_weight.
         bind_error (coeff vector (2 * n_dims + 4)) (\<lambda>acc_weight.
         bind_error (coeff vector (2 * n_dims + 5)) (\<lambda>g_weight.
           TaskViapoint8 vp vp_time vp_radius g g_time vp_weight acc_weight g_weight)))))))))"

section \<open>DmpWithGainSchedules\<close>

subsection \<open>The collaborators\<close>

text \<open>
  Modelled from the spec: the class \<^verbatim>\<open>FunctionApproximator\<close>, whose header and
  implementations are not among the sources. The spec treats it as an opaque learned
  mapping from a scalar phase value to a scalar output with a flag \<^verbatim>\<open>isTrained()\<close>;
  \<^verbatim>\<open>predict\<close> on a column of \<open>T\<close> phase values gives the column of the \<open>T\<close> outputs.
\<close>

record FunctionApproximator =
  isTrained :: bool
  predict :: "real \<Rightarrow> real"

text \<open>
  The objects that the extension owns through \<^verbatim>\<open>FunctionApproximator*\<close> live in a heap:
  an address is an index into the list of allocated objects, \<^verbatim>\<open>new\<close> appends, and a
  pointer is \<open>None\<close> (\<^verbatim>\<open>NULL\<close>) or \<open>Some\<close> address.
\<close>

type_synonym heap = "FunctionApproximator list"
type_synonym FunctionApproximator_ptr = "nat option"

text \<open>\<^verbatim>\<open>p->clone()\<close>: a new object with the state of \<open>*p\<close>.\<close>

definition fa_clone :: "heap \<Rightarrow> FunctionApproximator_ptr \<Rightarrow> error + (heap \<times> FunctionApproximator_ptr)" where
  "fa_clone h p =
     (case p of
        None \<Rightarrow> Inl Null_Dereference
      | Some a \<Rightarrow>
          if a < length h then Inr (h @ [h ! a], Some (length h)) else Inl Dangling_Pointer)"

text \<open>
  A \<^verbatim>\<open>Trajectory\<close> with its accessors \<^verbatim>\<open>ts()\<close>, \<^verbatim>\<open>ys()\<close>, \<^verbatim>\<open>yds()\<close>, \<^verbatim>\<open>ydds()\<close>
  and \<^verbatim>\<open>misc()\<close>; its \<^verbatim>\<open>length()\<close> is the number of time steps.
\<close>

record Trajectory =
  traj_ts :: VectorXd
  traj_ys :: MatrixXd
  traj_yds :: MatrixXd
  traj_ydds :: MatrixXd
  traj_misc :: MatrixXd

text \<open>
  The base class \<^verbatim>\<open>Dmp\<close> and the training of a function approximator are not among the
  sources either. They are parameters: a value of type \<open>'dmp\<close> is the state of the base
  primitive, and the record below holds the operations of it (and of the function
  approximators) that the extension calls.
\<close>

record 'dmp collaborators =
  dim_orig :: "'dmp \<Rightarrow> nat"
  Dmp_integrateStart :: "'dmp \<Rightarrow> VectorXd \<times> VectorXd"
  Dmp_integrateStep :: "'dmp \<Rightarrow> real \<Rightarrow> VectorXd \<Rightarrow> VectorXd \<times> VectorXd"
  Dmp_analyticalSolution :: "'dmp \<Rightarrow> VectorXd \<Rightarrow> MatrixXd \<times> MatrixXd"
  Dmp_train :: "'dmp \<Rightarrow> Trajectory \<Rightarrow> string \<Rightarrow> bool \<Rightarrow> 'dmp"
  fa_train :: "FunctionApproximator \<Rightarrow> VectorXd \<Rightarrow> VectorXd \<Rightarrow> string \<Rightarrow> bool \<Rightarrow> FunctionApproximator"
  fa_reTrain :: "FunctionApproximator \<Rightarrow> VectorXd \<Rightarrow> VectorXd \<Rightarrow> string \<Rightarrow> bool \<Rightarrow> FunctionApproximator"

subsection \<open>The class\<close>

text \<open>
  The object: its base-class part and the vector \<^verbatim>\<open>function_approximators_gains_\<close>. The
  three preallocated matrices are scratch space whose contents no result depends on.
\<close>

record 'dmp DmpWithGainSchedules =
  base :: 'dmp
  function_approximators_gains :: "FunctionApproximator_ptr list"

text \<open>
  \<^verbatim>\<open>initFunctionApproximatorsExtDims\<close>: the loop over \<open>dd\<close> copies the slots in order;
  a \<^verbatim>\<open>NULL\<close> slot stays \<^verbatim>\<open>NULL\<close>, any other is cloned.
\<close>

fun init_slots ::
  "heap \<Rightarrow> FunctionApproximator_ptr list \<Rightarrow> FunctionApproximator_ptr list
     \<Rightarrow> error + (heap \<times> FunctionApproximator_ptr list)" where
  "init_slots h [] copied = Inr (h, copied)"
| "init_slots h (p # ps) copied =
     (if p = None then init_slots h ps (copied @ [None])
      else bind_error (fa_clone h p) (\<lambda>(h', q). init_slots h' ps (copied @ [q])))"

definition initFunctionApproximatorsExtDims ::
  "heap \<Rightarrow> 'dmp DmpWithGainSchedules \<Rightarrow> FunctionApproximator_ptr list
     \<Rightarrow> error + (heap \<times> 'dmp DmpWithGainSchedules)" where
  "initFunctionApproximatorsExtDims h this function_approximators_gains_arg =
     (if function_approximators_gains_arg = [] then Inr (h, this)
      else bind_error (init_slots h function_approximators_gains_arg [])
             (\<lambda>(h', copied). Inr (h', this\<lparr>function_approximators_gains := copied\<rparr>)))"

text \<open>The constructor: the base part is a copy of \<open>*dmp\<close>, the vector starts empty.\<close>

definition DmpWithGainSchedules_new ::
  "heap \<Rightarrow> 'dmp \<Rightarrow> FunctionApproximator_ptr list \<Rightarrow> error + (heap \<times> 'dmp DmpWithGainSchedules)" where
  "DmpWithGainSchedules_new h dmp function_approximators_gains_arg =
     initFunctionApproximatorsExtDims h
       \<lparr>base = dmp, function_approximators_gains = []\<rparr> function_approximators_gains_arg"

text \<open>
  \<^verbatim>\<open>clone\<close>: every slot is cloned through its pointer and pushed back, then the
  constructor runs on \<^verbatim>\<open>Dmp::clone()\<close>, a copy of the base part.
\<close>

fun clone_slots ::
  "heap \<Rightarrow> FunctionApproximator_ptr list \<Rightarrow> FunctionApproximator_ptr list
     \<Rightarrow> error + (heap \<times> FunctionApproximator_ptr list)" where
  "clone_slots h [] pushed = Inr (h, pushed)"
| "clone_slots h (p # ps) pushed =
     bind_error (fa_clone h p) (\<lambda>(h', q). clone_slots h' ps (pushed @ [q]))"

definition clone :: "heap \<Rightarrow> 'dmp DmpWithGainSchedules \<Rightarrow> error + (heap \<times> 'dmp DmpWithGainSchedules)" where
  "clone h this =
     bind_error (clone_slots h (function_approximators_gains this) [])
       (\<lambda>(h', pushed). DmpWithGainSchedules_new h' (base this) pushed)"

text \<open>
  \<^verbatim>\<open>computeFunctionApproximatorOutputExtendedDimensions\<close>. The phase states are the
  column of a \<open>T \<times> 1\<close> matrix. The loop runs over \<open>i_dim < dim_orig()\<close> and reads
  \<^verbatim>\<open>function_approximators_gains_[i_dim]\<close> in each round.
\<close>

definition set_col :: "MatrixXd \<Rightarrow> nat \<Rightarrow> VectorXd \<Rightarrow> MatrixXd" where
  "set_col m j v = map2 (\<lambda>r x. r[j := x]) m v"

fun gains_loop ::
  "heap \<Rightarrow> FunctionApproximator_ptr list \<Rightarrow> VectorXd \<Rightarrow> nat list \<Rightarrow> MatrixXd \<Rightarrow> error + MatrixXd" where
  "gains_loop h bank phase_state [] fa_output = Inr fa_output"
| "gains_loop h bank phase_state (i_dim # dims) fa_output =
     (if i_dim < length bank
      then (case bank ! i_dim of
              None \<Rightarrow> gains_loop h bank phase_state dims fa_output
            | Some a \<Rightarrow>
                if a < length h
                then (if isTrained (h ! a)
                      then gains_loop h bank phase_state dims
                             (set_col fa_output i_dim (map (predict (h ! a)) phase_state))
                      else gains_loop h bank phase_state dims fa_output)
                else Inl Dangling_Pointer)
      else Inl Out_Of_Bounds)"

definition computeFunctionApproximatorOutputExtendedDimensions ::
  "'dmp collaborators \<Rightarrow> heap \<Rightarrow> 'dmp DmpWithGainSchedules \<Rightarrow> VectorXd \<Rightarrow> error + MatrixXd" where
  "computeFunctionApproximatorOutputExtendedDimensions ops h this phase_state =
     (let T = length phase_state;
          fa_output = replicate T (replicate (dim_orig ops (base this)) 0)
      in gains_loop h (function_approximators_gains this) phase_state
           [0 ..< dim_orig ops (base this)] fa_output)"

text \<open>
  \<^verbatim>\<open>integrateStart\<close> and \<^verbatim>\<open>integrateStep\<close>. The macro \<^verbatim>\<open>PHASE\<close> is
  \<^verbatim>\<open>segment(3*dim_orig()+0, 1)\<close>; the gains are the transposed \<open>1 \<times> D\<close> matrix, read as
  a vector.
\<close>

definition PHASE :: "'dmp collaborators \<Rightarrow> 'dmp DmpWithGainSchedules \<Rightarrow> VectorXd \<Rightarrow> error + VectorXd" where
  "PHASE ops this x = segment x (int (3 * dim_orig ops (base this) + 0)) 1"

definition integrateStart ::
  "'dmp collaborators \<Rightarrow> heap \<Rightarrow> 'dmp DmpWithGainSchedules
     \<Rightarrow> error + (VectorXd \<times> VectorXd \<times> VectorXd)" where
  "integrateStart ops h this =
     (let (x, xd) = Dmp_integrateStart ops (base this) in
      bind_error (PHASE ops this x) (\<lambda>phase.
      bind_error (computeFunctionApproximatorOutputExtendedDimensions ops h this phase)
        (\<lambda>gains_prealloc. Inr (x, xd, concat (transpose gains_prealloc)))))"

definition integrateStep ::
  "'dmp collaborators \<Rightarrow> heap \<Rightarrow> 'dmp DmpWithGainSchedules \<Rightarrow> real \<Rightarrow> VectorXd
     \<Rightarrow> error + (VectorXd \<times> VectorXd \<times> VectorXd)" where
  "integrateStep ops h this dt x =
     (let (x_updated, xd_updated) = Dmp_integrateStep ops (base this) dt x in
      bind_error (PHASE ops this x_updated) (\<lambda>phase.
      bind_error (computeFunctionApproximatorOutputExtendedDimensions ops h this phase)
        (\<lambda>gains_prealloc. Inr (x_updated, xd_updated, concat (transpose gains_prealloc)))))"

text \<open>
  \<^verbatim>\<open>train\<close>. The macro \<^verbatim>\<open>PHASEM(T)\<close> is \<^verbatim>\<open>block(0, 3*dim_orig()+0, T, 1)\<close>. The result
  is how the call ends (\<open>None\<close>: it returns) together with the heap and the object as
  they are at that moment.
\<close>

definition PHASEM ::
  "'dmp collaborators \<Rightarrow> 'dmp DmpWithGainSchedules \<Rightarrow> MatrixXd \<Rightarrow> nat \<Rightarrow> error + VectorXd" where
  "PHASEM ops this xs T =
     (let j = 3 * dim_orig ops (base this) + 0 in
      if T \<le> length xs \<and> list_all (\<lambda>r. j < length r) xs
      then Inr (map (\<lambda>r. r ! j) (take T xs))
      else Inl Eigen_Assertion)"

definition cols :: "MatrixXd \<Rightarrow> nat" where
  "cols m = (case m of [] \<Rightarrow> 0 | r # rs \<Rightarrow> length r)"

definition col :: "MatrixXd \<Rightarrow> nat \<Rightarrow> VectorXd" where
  "col m j = map (\<lambda>r. r ! j) m"

function to_string :: "nat \<Rightarrow> string" where
  "to_string n =
     (if n < 10 then [char_of (48 + n)]
      else to_string (n div 10) @ [char_of (48 + n mod 10)])"
  by pat_completeness auto
termination
  by (relation "measure id") auto

declare to_string.simps [simp del]

fun train_slots ::
  "'dmp collaborators \<Rightarrow> VectorXd \<Rightarrow> MatrixXd \<Rightarrow> string \<Rightarrow> bool \<Rightarrow> nat
     \<Rightarrow> heap \<Rightarrow> FunctionApproximator_ptr list \<Rightarrow> nat \<Rightarrow> error option \<times> heap" where
  "train_slots ops xs_phase targets save_directory overwrite n h [] dd = (None, h)"
| "train_slots ops xs_phase targets save_directory overwrite n h (p # ps) dd =
     (let save_directory_dim =
            (if save_directory \<noteq> []
             then (if n = 1 then save_directory
                   else save_directory @ ''/gains'' @ to_string dd)
             else []);
          cur_target = col targets dd
      in case p of
           None \<Rightarrow> train_slots ops xs_phase targets save_directory overwrite n h ps (Suc dd)
         | Some a \<Rightarrow>
             if a < length h
             then (if isTrained (h ! a)
                   then train_slots ops xs_phase targets save_directory overwrite n
                          (h[a := fa_reTrain ops (h ! a) xs_phase cur_target save_directory_dim overwrite])
                          ps (Suc dd)
                   else train_slots ops xs_phase targets save_directory overwrite n
                          (h[a := fa_train ops (h ! a) xs_phase cur_target save_directory_dim overwrite])
                          ps (Suc dd))
             else (Some Dangling_Pointer, h))"

definition train ::
  "'dmp collaborators \<Rightarrow> heap \<Rightarrow> 'dmp DmpWithGainSchedules \<Rightarrow> Trajectory \<Rightarrow> string \<Rightarrow> bool
     \<Rightarrow> error option \<times> heap \<times> 'dmp DmpWithGainSchedules" where
  "train ops h this trajectory save_directory overwrite =
     (let this = this\<lparr>base := Dmp_train ops (base this) trajectory save_directory overwrite\<rparr>;
          (xs_ana, xds_ana) = Dmp_analyticalSolution ops (base this) (traj_ts trajectory)
      in case PHASEM ops this xs_ana (length (traj_ts trajectory)) of
           Inl e \<Rightarrow> (Some e, h, this)
         | Inr xs_phase \<Rightarrow>
             (let targets = traj_misc trajectory in
              if cols targets \<noteq> length (function_approximators_gains this)
              then (Some Assertion_Failed, h, this)
              else if function_approximators_gains this = []
              then (Some Assertion_Failed, h, this)
              else (case train_slots ops xs_phase targets save_directory overwrite
                           (length (function_approximators_gains this)) h
                           (function_approximators_gains this) 0 of
                      (outcome, h') \<Rightarrow> (outcome, h', this))))"

text \<open>
  A slot that contributes nothing to the gains: it is \<^verbatim>\<open>NULL\<close>, or it points to a live
  function approximator that is not trained.
\<close>

definition slot_idle :: "heap \<Rightarrow> FunctionApproximator_ptr \<Rightarrow> bool" where
  "slot_idle h p = (case p of None \<Rightarrow> True | Some a \<Rightarrow> a < length h \<and> \<not> isTrained (h ! a))"

text \<open>
  What a slot contributes to the gains at the phase \<open>x\<close>, and the row of the output for
  \<open>x\<close> when the loop has passed the first \<open>k\<close> slots.
\<close>

definition slot_output :: "heap \<Rightarrow> FunctionApproximator_ptr \<Rightarrow> real \<Rightarrow> real" where
  "slot_output h p x =
     (case p of None \<Rightarrow> 0 | Some a \<Rightarrow> if isTrained (h ! a) then predict (h ! a) x else 0)"

definition partial_row :: "heap \<Rightarrow> FunctionApproximator_ptr list \<Rightarrow> nat \<Rightarrow> real \<Rightarrow> real list" where
  "partial_row h bank k x =
     map (\<lambda>p. slot_output h p x) (take k bank) @ replicate (length bank - k) 0"

subsection \<open>An instance of the collaborators\<close>

text \<open>
  A small base primitive to evaluate the extension on: one dimension, so a state is
  \<open>[y, z, x_goal, phase]\<close>; its own state counts how often it was trained; an integration
  step halves every entry of the state; training a function approximator marks it as
  trained and makes it predict the sum of its targets at every phase.
\<close>

definition toy_collaborators :: "nat collaborators" where
  "toy_collaborators =
     \<lparr>dim_orig = (\<lambda>dmp. 1),
      Dmp_integrateStart = (\<lambda>dmp. ([0, 0, 0, 1], [0, 0, 0, 0])),
      Dmp_integrateStep = (\<lambda>dmp dt x. (map (\<lambda>v. v / 2) x, map (\<lambda>v. - v / 2 / dt) x)),
      Dmp_analyticalSolution = (\<lambda>dmp times. (map (\<lambda>t. [0, 0, 0, 1]) times, map (\<lambda>t. [0, 0, 0, 0]) times)),
      Dmp_train = (\<lambda>dmp trajectory save_directory overwrite. Suc dmp),
      fa_train = (\<lambda>fa inputs targets save_directory overwrite.
                    fa\<lparr>isTrained := True, predict := (\<lambda>phase. sum_list targets)\<rparr>),
      fa_reTrain = (\<lambda>fa inputs targets save_directory overwrite.
                    fa\<lparr>isTrained := True, predict := (\<lambda>phase. sum_list targets)\<rparr>)\<rparr>"

section \<open>Properties of computeCosts\<close>

subsection \<open>Auxiliary facts\<close>

lemma time_step_scan_le: "step \<le> length ts \<Longrightarrow> time_step_scan ts t step \<le> length ts"
  by (induction ts t step rule: time_step_scan.induct) (subst time_step_scan.simps, auto)

lemma time_step_scan_all_before:
  "list_all (\<lambda>s. s < t) ts \<Longrightarrow> step \<le> length ts \<Longrightarrow> time_step_scan ts t step = length ts"
proof (induction ts t step rule: time_step_scan.induct)
  case (1 ts t step)
  show ?case
  proof (cases "step < length ts")
    case True
    with "1.prems" have "ts ! step < t" by (simp add: list_all_length)
    with True "1.IH" "1.prems" show ?thesis
      by (subst time_step_scan.simps) simp
  next
    case False
    with "1.prems" show ?thesis by (subst time_step_scan.simps) simp
  qed
qed

lemma costs_vector_eq:
  "costs_vector task d m g =
     [viapoint_weight task * d + acceleration_weight task * m + goal_weight task * g,
      viapoint_weight task * d, acceleration_weight task * m, goal_weight task * g]"
  by (simp add: costs_vector_def Let_def numeral_eq_Suc)

lemma computeCosts_Inr_iff:
  "computeCosts TMIN task ts y ydd = Inr costs \<longleftrightarrow>
     (\<exists>d m g. dist_to_viapoint TMIN task ts y = Inr d \<and> mean_ydd task ts ydd = Inr m
        \<and> delay_cost task ts y = Inr g \<and> costs = costs_vector task d m g)"
  by (auto simp: computeCosts_def split: sum.splits)

lemma minCoeff_Min: "xs \<noteq> [] \<Longrightarrow> minCoeff xs = Inr (Min (set xs))"
  by (cases xs) (simp_all add: Min.set_eq_fold [symmetric])

lemma squaredNorm_nonneg: "0 \<le> squaredNorm v"
  unfolding squaredNorm_def by (rule sum_list_nonneg) auto

subsection \<open>The viapoint distance in minimum-distance mode\<close>

text \<open>
  On a trajectory with at least one sample, each of the viapoint's dimension, line 74
  yields the square of the Euclidean distance to the nearest sample: the minimum is
  taken over squared norms and no root follows, while the branch for a fixed time
  (line 88) takes the root.
\<close>

lemma dist_at_minimum_squared:
  assumes "y \<noteq> []" and "list_all (\<lambda>r. length r = length (viapoint task)) y"
  shows "dist_at_minimum task y = Inr ((euclidean_minimum_distance y (viapoint task))\<^sup>2)"
proof -
  let ?f = "\<lambda>r. squaredNorm (map2 (-) r (viapoint task))"
  let ?S = "?f ` set y"
  have fin: "finite ?S" and ne: "?S \<noteq> {}" using assms(1) by simp_all
  have "Min ?S \<in> ?S" using fin ne by (rule Min_in)
  then have nonneg: "0 \<le> Min ?S" using squaredNorm_nonneg by auto
  have "sqrt (Min ?S) = Min (sqrt ` ?S)"
    using fin ne by (intro mono_Min_commute) (auto simp: mono_def)
  then have "euclidean_minimum_distance y (viapoint task) = sqrt (Min ?S)"
    by (simp add: euclidean_minimum_distance_def image_image)
  then have "(euclidean_minimum_distance y (viapoint task))\<^sup>2 = Min ?S"
    using nonneg by simp
  moreover have "dist_at_minimum task y = Inr (Min ?S)"
    using assms by (simp add: dist_at_minimum_def rowwise_minus_def minCoeff_Min o_def)
  ultimately show ?thesis by simp
qed

theorem dist_at_minimum_squared_witness:
  "dist_at_minimum
     \<lparr>viapoint = [0], viapoint_time = - 1, viapoint_radius = 0, goal = [1], goal_time = - 1,
      viapoint_weight = 1, acceleration_weight = 0, goal_weight = 0\<rparr> [[2], [3]]
   = Inr ((euclidean_minimum_distance [[2], [3]] [0])\<^sup>2)
   \<and> dist_at_minimum
     \<lparr>viapoint = [0], viapoint_time = - 1, viapoint_radius = 0, goal = [1], goal_time = - 1,
      viapoint_weight = 1, acceleration_weight = 0, goal_weight = 0\<rparr> [[2], [3]] = Inr 4"
  using dist_at_minimum_squared [of "[[2], [3]]"
      "\<lparr>viapoint = [0], viapoint_time = - 1, viapoint_radius = 0, goal = [1], goal_time = - 1,
        viapoint_weight = 1, acceleration_weight = 0, goal_weight = 0\<rparr>"]
  by (simp add: dist_at_minimum_def rowwise_minus_def squaredNorm_def)

text \<open>
  Claim C1: in minimum-distance mode the viapoint distance computed by
  \<^verbatim>\<open>computeCosts\<close> is the Euclidean minimum distance between the position trajectory
  and the viapoint. The code at the sentinel \<open>-1\<close>, with the viapoint \<open>[0]\<close>, weight
  \<open>1\<close>, radius \<open>0\<close> and the single sample \<open>[2]\<close>: the distance it computes is \<open>4\<close>,
  the Euclidean distance to the nearest sample is \<open>2\<close>.
\<close>

theorem C1_minimum_distance_not_rooted:
  "dist_to_viapoint (- 1)
     \<lparr>viapoint = [0], viapoint_time = - 1, viapoint_radius = 0, goal = [1], goal_time = - 1,
      viapoint_weight = 1, acceleration_weight = 0, goal_weight = 0\<rparr> [0] [[2]] = Inr 4
   \<and> euclidean_minimum_distance [[2]] [0] = 2"
  by (simp add: dist_to_viapoint_def dist_at_minimum_def rowwise_minus_def squaredNorm_def
        euclidean_minimum_distance_def)

subsection \<open>The tolerance radius\<close>

text \<open>
  With a positive radius and a viapoint at a fixed time, lines 91 to 97 subtract the
  radius from the distance at that time and clamp the difference at zero.
\<close>

lemma dist_to_viapoint_radius:
  assumes "viapoint_weight task \<noteq> 0" and "viapoint_time task \<noteq> TMIN"
    and "0 < viapoint_radius task" and "dist_at_time task ts y = Inr d"
  shows "dist_to_viapoint TMIN task ts y = Inr (max 0 (d - viapoint_radius task))"
  using assms by (simp add: dist_to_viapoint_def max_def)


theorem dist_to_viapoint_radius_witness:
  "dist_to_viapoint (- 1)
     \<lparr>viapoint = [1], viapoint_time = 2, viapoint_radius = 1 / 2, goal = [2], goal_time = 5,
      viapoint_weight = 1, acceleration_weight = 0, goal_weight = 0\<rparr> [0, 2, 5] [[0], [3], [2]]
   = Inr (3 / 2)"
  using dist_to_viapoint_radius [of
      "\<lparr>viapoint = [1], viapoint_time = 2, viapoint_radius = 1 / 2, goal = [2], goal_time = 5,
        viapoint_weight = 1, acceleration_weight = 0, goal_weight = 0\<rparr>" "- 1" "[0, 2, 5]"
      "[[0], [3], [2]]" 2]
  by (simp add: dist_at_time_def time_step_scan.simps row_def vec_minus_def squaredNorm_def)

subsection \<open>The smoothness component\<close>

text \<open>
  Claim C2, as amended: for every rollout with \<open>T \<ge> 1\<close> time samples and a nonzero
  acceleration weight, the block for the smoothness component yields the sum of the
  squared accelerations divided by \<open>T\<close>, the number of time samples, and slot 2 of every
  cost vector that \<^verbatim>\<open>computeCosts\<close> returns is the acceleration weight times that
  quotient. For \<open>D \<ge> 1\<close> this is \<open>D\<close> times the mean over all \<open>T * D\<close> entries.
\<close>

theorem C2_smoothness_per_time_step:
  assumes "acceleration_weight task \<noteq> 0" and "ts \<noteq> []"
  shows "mean_ydd task ts ydd = Inr (array_pow2_sum ydd / real (length ts))
       \<and> (\<forall>costs. computeCosts TMIN task ts y ydd = Inr costs \<longrightarrow>
            costs ! 2 = acceleration_weight task * (array_pow2_sum ydd / real (length ts)))
       \<and> (0 < D \<longrightarrow>
            array_pow2_sum ydd / real (length ts) = real D * mean_of_squares ydd (length ts) D)"
proof -
  have m: "mean_ydd task ts ydd = Inr (array_pow2_sum ydd / real (length ts))"
    using assms by (simp add: mean_ydd_def)
  have "costs ! 2 = acceleration_weight task * (array_pow2_sum ydd / real (length ts))"
    if "computeCosts TMIN task ts y ydd = Inr costs" for costs
    using that m by (auto simp: computeCosts_Inr_iff costs_vector_eq)
  moreover have "array_pow2_sum ydd / real (length ts) = real D * mean_of_squares ydd (length ts) D"
    if "0 < D"
    using that by (simp add: mean_of_squares_def)
  ultimately show ?thesis using m by blast
qed

theorem C2_smoothness_per_time_step_witness:
  "mean_ydd \<lparr>viapoint = [0, 0], viapoint_time = - 1, viapoint_radius = 0, goal = [1, 1],
      goal_time = - 1, viapoint_weight = 0, acceleration_weight = 1, goal_weight = 0\<rparr>
     [0] [[1, 1]] = Inr 2 \<and> (2::real) = real 2 * mean_of_squares [[1, 1]] 1 2"
  using C2_smoothness_per_time_step [of
      "\<lparr>viapoint = [0, 0], viapoint_time = - 1, viapoint_radius = 0, goal = [1, 1],
        goal_time = - 1, viapoint_weight = 0, acceleration_weight = 1, goal_weight = 0\<rparr>"
      "[0]" "[[1, 1]]" "- 1" "[[0, 0]]" 2]
  by (simp add: array_pow2_sum_def squaredNorm_def)

text \<open>
  The claim as it was stated fails for one time sample of two dimensions with the
  accelerations \<open>[1, 1]\<close> and the acceleration weight \<open>1\<close>: slot 2 of the cost vector is
  \<open>2\<close>, the weight times the mean over the \<open>T * D = 2\<close> entries is \<open>1\<close>.
\<close>

theorem C2_mean_over_entries_counterexample:
  "computeCosts (- 1)
     \<lparr>viapoint = [0, 0], viapoint_time = - 1, viapoint_radius = 0, goal = [1, 1], goal_time = - 1,
      viapoint_weight = 0, acceleration_weight = 1, goal_weight = 0\<rparr>
     [0] [[0, 0]] [[1, 1]] = Inr [2, 0, 2, 0]
   \<and> 1 * mean_of_squares [[1, 1]] 1 2 = 1"
  by (simp add: computeCosts_def dist_to_viapoint_def mean_ydd_def delay_cost_def costs_vector_eq
        array_pow2_sum_def squaredNorm_def mean_of_squares_def)

subsection \<open>The layout of the cost vector\<close>

text \<open>
  Claim C3, as amended: \<^verbatim>\<open>computeCosts\<close> returns a cost vector exactly when none of its
  three blocks stops on a failed check, and it always does when the three weights are
  zero, with the vector \<open>[0, 0, 0, 0]\<close>. Every vector it returns has length
  \<open>4 = 1 + getNumberOfCostComponents()\<close> and the layout
  \<open>[total, viapoint_cost, acceleration_cost, goal_cost]\<close>: each component is its weight
  times the value of its block, the total is the sum of the three components, and the
  slot of a component whose weight is zero holds \<open>0\<close>.
\<close>

theorem C3_cost_vector_layout:
  "((\<exists>costs. computeCosts TMIN task ts y ydd = Inr costs) \<longleftrightarrow>
      (\<exists>d m g. dist_to_viapoint TMIN task ts y = Inr d \<and> mean_ydd task ts ydd = Inr m
         \<and> delay_cost task ts y = Inr g))
   \<and> (\<forall>costs d m g. dist_to_viapoint TMIN task ts y = Inr d \<and> mean_ydd task ts ydd = Inr m
         \<and> delay_cost task ts y = Inr g \<and> computeCosts TMIN task ts y ydd = Inr costs \<longrightarrow>
         length costs = 1 + getNumberOfCostComponents task
       \<and> costs = [costs ! 0, viapoint_weight task * d, acceleration_weight task * m,
                   goal_weight task * g]
       \<and> costs ! 0 = costs ! 1 + costs ! 2 + costs ! 3
       \<and> (viapoint_weight task = 0 \<longrightarrow> costs ! 1 = 0)
       \<and> (acceleration_weight task = 0 \<longrightarrow> costs ! 2 = 0)
       \<and> (goal_weight task = 0 \<longrightarrow> costs ! 3 = 0))
   \<and> (viapoint_weight task = 0 \<and> acceleration_weight task = 0 \<and> goal_weight task = 0 \<longrightarrow>
         computeCosts TMIN task ts y ydd = Inr [0, 0, 0, 0])"
proof (intro conjI allI impI)
  show "(\<exists>costs. computeCosts TMIN task ts y ydd = Inr costs) \<longleftrightarrow>
      (\<exists>d m g. dist_to_viapoint TMIN task ts y = Inr d \<and> mean_ydd task ts ydd = Inr m
         \<and> delay_cost task ts y = Inr g)"
    by (auto simp: computeCosts_Inr_iff)
next
  assume "viapoint_weight task = 0 \<and> acceleration_weight task = 0 \<and> goal_weight task = 0"
  then show "computeCosts TMIN task ts y ydd = Inr [0, 0, 0, 0]"
    by (simp add: computeCosts_def dist_to_viapoint_def mean_ydd_def delay_cost_def costs_vector_eq)
next
  fix costs d m g
  assume a: "dist_to_viapoint TMIN task ts y = Inr d \<and> mean_ydd task ts ydd = Inr m
         \<and> delay_cost task ts y = Inr g \<and> computeCosts TMIN task ts y ydd = Inr costs"
  then have c: "costs = costs_vector task d m g"
    by (auto simp: computeCosts_Inr_iff)
  show "length costs = 1 + getNumberOfCostComponents task"
    by (simp add: c costs_vector_eq getNumberOfCostComponents_def)
  show "costs = [costs ! 0, viapoint_weight task * d, acceleration_weight task * m,
                   goal_weight task * g]"
    by (simp add: c costs_vector_eq)
  show "costs ! 0 = costs ! 1 + costs ! 2 + costs ! 3"
    by (simp add: c costs_vector_eq numeral_eq_Suc)
  show "costs ! 1 = 0" if "viapoint_weight task = 0"
    using that by (simp add: c costs_vector_eq)
  show "costs ! 2 = 0" if "acceleration_weight task = 0"
    using that by (simp add: c costs_vector_eq)
  show "costs ! 3 = 0" if "goal_weight task = 0"
    using that by (simp add: c costs_vector_eq numeral_eq_Suc)
qed

theorem C3_cost_vector_layout_witness:
  "computeCosts (- 1)
     \<lparr>viapoint = [1], viapoint_time = 2, viapoint_radius = 0, goal = [2], goal_time = 5,
      viapoint_weight = 1, acceleration_weight = 1, goal_weight = 1\<rparr>
     [0, 2, 5] [[0], [3], [3]] [[0], [3], [0]] = Inr [6, 2, 3, 1]
   \<and> length [6, 2, 3, 1 :: real] = 1 + getNumberOfCostComponents
        \<lparr>viapoint = [1], viapoint_time = 2, viapoint_radius = 0, goal = [2], goal_time = 5,
         viapoint_weight = 1, acceleration_weight = 1, goal_weight = 1\<rparr>
   \<and> (6 :: real) = 2 + 3 + 1"
  using C3_cost_vector_layout [of "- 1"
      "\<lparr>viapoint = [1], viapoint_time = 2, viapoint_radius = 0, goal = [2], goal_time = 5,
        viapoint_weight = 1, acceleration_weight = 1, goal_weight = 1\<rparr>"
      "[0, 2, 5]" "[[0], [3], [3]]" "[[0], [3], [0]]"]
  by (simp add: computeCosts_def dist_to_viapoint_def dist_at_time_def mean_ydd_def
        delay_cost_def costs_vector_eq time_step_scan.simps row_def vec_minus_def
        bottomRows_def rowwise_minus_def squaredNorm_def array_pow2_sum_def
        getNumberOfCostComponents_def)

text \<open>
  No vector is returned where a block fails: with the single sample time \<open>0\<close> and a
  viapoint at time \<open>1\<close> the scan of line 82 ends at \<open>ts.size()\<close> and the assertion of
  line 85 fails.
\<close>

theorem C3_assertion_counterexample:
  "computeCosts (- 1)
     \<lparr>viapoint = [0], viapoint_time = 1, viapoint_radius = 0, goal = [1], goal_time = - 1,
      viapoint_weight = 1, acceleration_weight = 0, goal_weight = 0\<rparr> [0] [[0]] [[0]]
   = Inl Assertion_Failed"
  by (simp add: computeCosts_def dist_to_viapoint_def dist_at_time_def time_step_scan.simps)

subsection \<open>A goal time after the last sample\<close>

text \<open>
  Claim C10: if the goal weight is nonzero and the goal's time is greater than every
  sample time, the scan of line 111 runs to \<open>ts.size()\<close>, no sample is left after it,
  the block of the goal yields the delay cost \<open>0\<close> without failing, and
  \<^verbatim>\<open>computeCosts\<close> returns whenever its two other blocks do, with \<open>0\<close> in the slot of the
  goal.
\<close>

theorem C10_goal_time_after_last_sample:
  assumes "goal_weight task \<noteq> 0" and "\<forall>t \<in> set ts. t < goal_time task"
  shows "time_step_scan ts (goal_time task) 0 = length ts
       \<and> delay_cost task ts y = Inr 0
       \<and> computeCosts TMIN task ts y ydd =
           (case dist_to_viapoint TMIN task ts y of
              Inl e \<Rightarrow> Inl e
            | Inr d \<Rightarrow>
                (case mean_ydd task ts ydd of
                   Inl e \<Rightarrow> Inl e
                 | Inr m \<Rightarrow>
                     Inr [viapoint_weight task * d + acceleration_weight task * m,
                          viapoint_weight task * d, acceleration_weight task * m, 0]))"
proof -
  have scan: "time_step_scan ts (goal_time task) 0 = length ts"
    using assms(2) by (intro time_step_scan_all_before) (simp_all add: list_all_iff)
  have delay: "delay_cost task ts y = Inr 0"
    using assms(1) by (simp add: delay_cost_def scan bottomRows_def rowwise_minus_def)
  show ?thesis
    by (simp add: scan delay computeCosts_def costs_vector_eq split: sum.splits)
qed


theorem C10_goal_time_after_last_sample_witness:
  "delay_cost
     \<lparr>viapoint = [0], viapoint_time = 1, viapoint_radius = 0, goal = [2], goal_time = 10,
      viapoint_weight = 1, acceleration_weight = 0, goal_weight = 1\<rparr> [0, 1] [[0], [1]] = Inr 0
   \<and> computeCosts (- 1)
     \<lparr>viapoint = [0], viapoint_time = 1, viapoint_radius = 0, goal = [2], goal_time = 10,
      viapoint_weight = 1, acceleration_weight = 0, goal_weight = 1\<rparr>
     [0, 1] [[0], [1]] [[0], [0]] = Inr [1, 1, 0, 0]"
  using C10_goal_time_after_last_sample [of
      "\<lparr>viapoint = [0], viapoint_time = 1, viapoint_radius = 0, goal = [2], goal_time = 10,
        viapoint_weight = 1, acceleration_weight = 0, goal_weight = 1\<rparr>"
      "[0, 1]" "[[0], [1]]" "- 1" "[[0], [0]]"]
  by (simp add: dist_to_viapoint_def dist_at_time_def mean_ydd_def time_step_scan.simps
        row_def vec_minus_def squaredNorm_def)

section \<open>Properties of the task file\<close>

subsection \<open>Auxiliary facts\<close>

lemma put_vector_None: "put_vector v None = None"
  by (induction v) (simp_all add: put_vector_def put_def)

lemma put_double_None: "put_double x None = None"
  by (simp add: put_double_def put_def)

lemma put_vector_Some:
  "put_vector v (Some written) = Some (written @ concat (map (\<lambda>x. [Dbl x, Str '' '']) v))"
  unfolding put_vector_def
  by (induction v arbitrary: written) (simp_all add: put_def)

lemma put_double_Some: "put_double x (Some written) = Some (written @ [Dbl x, Str '' ''])"
  by (simp add: put_double_def put_def)

lemma writeToFile_contents:
  assumes "can_open fs filename"
  shows "writeToFile fs filename task =
           (fs\<lparr>contents := (contents fs)
                  (filename \<mapsto> concat (map (\<lambda>x. [Dbl x, Str '' '']) (task_fields task)))\<rparr>, True)"
  using assms
  by (simp add: writeToFile_def ofstream_open_def ofstream_close_def put_vector_Some
        put_double_Some task_fields_def)

lemma writeToFile_cannot_open:
  assumes "\<not> can_open fs filename"
  shows "writeToFile fs filename task = (fs, True)"
  using assms
  by (simp add: writeToFile_def ofstream_open_def ofstream_close_def put_vector_None
        put_double_None)

lemma savePlotRolloutScript_cannot_open:
  assumes "\<not> can_open fs (directory @ ''/plotRollout.py'')"
  shows "savePlotRolloutScript fs directory task = (fs, False)"
  using assms
  by (simp add: savePlotRolloutScript_def ofstream_open_def is_open_def)

lemma split_lines_fields:
  "split_lines (concat (map (\<lambda>x. [Dbl x, Str s]) v)) line =
     [line @ concat (map (\<lambda>x. [Dbl x, Str s]) v)]"
  by (induction v arbitrary: line) simp_all

lemma numbers_of_fields: "numbers_of (concat (map (\<lambda>x. [Dbl x, Str s]) v)) = v"
  by (induction v) simp_all

lemma loadMatrix_written:
  assumes "can_open fs filename"
  shows "loadMatrix (fst (writeToFile fs filename task)) filename = [task_fields task]"
proof -
  have "task_fields task \<noteq> []" by (simp add: task_fields_def)
  with assms show ?thesis
    by (simp add: writeToFile_contents loadMatrix_def split_lines_fields numbers_of_fields)
qed


lemma int_div_2: "0 \<le> a \<Longrightarrow> int_div a 2 = a div 2"
  by (cases "a = 0") (simp_all add: int_div_def)

lemma coeff_nat: "i < length v \<Longrightarrow> coeff v (int i) = Inr (v ! i)"
  by (simp add: coeff_def)

lemma segment_nat: "i + n \<le> length v \<Longrightarrow> segment v (int i) (int n) = Inr (take n (drop i v))"
  by (simp add: segment_def)

lemma bind_error_Inr: "bind_error (Inr x) f = f x"
  by (simp add: bind_error_def)

lemma readFromFile_row:
  assumes row0: "loadMatrix fs filename = [vp @ [t, r] @ g @ [gt, w1, w2, w3]]"
    and len: "length vp = length g"
  shows "readFromFile TMIN fs filename =
           TaskViapoint8 vp (if t < 0 then TMIN else t) r g gt w1 w2 w3"
proof -
  define D where "D = length g"
  define tl4 where "tl4 = [gt, w1, w2, w3]"
  define v where "v = vp @ [t, r] @ g @ tl4"
  have lv: "length v = 2 * D + 6" using len by (simp add: v_def D_def tl4_def)
  have lvp: "length vp = D" using len by (simp add: D_def)
  have n: "int_div (int (length v) - 6) 2 = int D"
    by (simp add: lv int_div_2)
  have i1: "int D + 1 = int (D + 1)" and i2: "int D + 2 = int (D + 2)"
    and i3: "2 * int D + 2 = int (2 * D + 2)" and i4: "2 * int D + 3 = int (2 * D + 3)"
    and i5: "2 * int D + 4 = int (2 * D + 4)" and i6: "2 * int D + 5 = int (2 * D + 5)"
    by simp_all
  have h: "head v (int D) = Inr vp"
    unfolding head_def using segment_nat [of 0 D v] by (simp add: lv v_def lvp)
  have c0: "coeff v (int D) = Inr t"
    using coeff_nat [of D v] by (simp add: lv) (simp add: v_def nth_append lvp)
  have c1: "coeff v (int (D + 1)) = Inr r"
    using coeff_nat [of "D + 1" v] by (simp add: lv) (simp add: v_def nth_append lvp)
  have sg: "segment v (int (D + 2)) (int D) = Inr g"
    using segment_nat [of "D + 2" D v] by (simp add: lv) (simp add: v_def lvp D_def)
  have nth_tl: "v ! j = tl4 ! k" if "j = 2 * D + 2 + k" for j k
  proof -
    have "v = (vp @ [t, r] @ g) @ tl4" by (simp add: v_def)
    moreover have "length (vp @ [t, r] @ g) = 2 * D + 2" by (simp add: lvp D_def)
    ultimately show ?thesis unfolding that by (metis nth_append_length_plus)
  qed
  have "v ! (2 * D + 2) = tl4 ! 0" by (rule nth_tl) simp
  then have c2: "coeff v (int (2 * D + 2)) = Inr gt"
    using coeff_nat [of "2 * D + 2" v] by (simp add: lv tl4_def)
  have "v ! (2 * D + 3) = tl4 ! 1" by (rule nth_tl) simp
  then have c3: "coeff v (int (2 * D + 3)) = Inr w1"
    using coeff_nat [of "2 * D + 3" v] by (simp add: lv tl4_def)
  have "v ! (2 * D + 4) = tl4 ! 2" by (rule nth_tl) simp
  then have c4: "coeff v (int (2 * D + 4)) = Inr w2"
    using coeff_nat [of "2 * D + 4" v] by (simp add: lv tl4_def)
  have "v ! (2 * D + 5) = tl4 ! 3" by (rule nth_tl) simp
  then have c5: "coeff v (int (2 * D + 5)) = Inr w3"
    using coeff_nat [of "2 * D + 5" v] by (simp add: lv tl4_def)
  have r0: "row (loadMatrix fs filename) 0 = Inr v"
    by (simp add: row0 row_def v_def tl4_def)
  show ?thesis
    unfolding readFromFile_def r0 bind_error_Inr Let_def n i1 i2 i3 i4 i5 i6 h c0 c1 sg c2 c3 c4 c5
    by (rule refl)
qed


subsection \<open>A file that cannot be opened\<close>

text \<open>
  Claim C8: a file-writing operation that cannot open its output file returns
  \<^verbatim>\<open>false\<close>; in particular \<^verbatim>\<open>writeToFile\<close> does. The code on a file system where no
  file can be opened: \<^verbatim>\<open>writeToFile\<close> never tests the stream and returns \<^verbatim>\<open>true\<close>,
  while \<^verbatim>\<open>savePlotRolloutScript\<close> tests \<^verbatim>\<open>is_open()\<close> and returns \<^verbatim>\<open>false\<close>.
\<close>

theorem C8_writeToFile_returns_true:
  "writeToFile \<lparr>can_open = (\<lambda>name. False), contents = (\<lambda>name. None)\<rparr> ''/no/such/dir/task.txt''
     \<lparr>viapoint = [1, 2], viapoint_time = 3, viapoint_radius = 0, goal = [4, 5], goal_time = 6,
      viapoint_weight = 1, acceleration_weight = 0, goal_weight = 0\<rparr>
   = (\<lparr>can_open = (\<lambda>name. False), contents = (\<lambda>name. None)\<rparr>, True)
   \<and> savePlotRolloutScript \<lparr>can_open = (\<lambda>name. False), contents = (\<lambda>name. None)\<rparr> ''/no/such/dir''
     \<lparr>viapoint = [1, 2], viapoint_time = 3, viapoint_radius = 0, goal = [4, 5], goal_time = 6,
      viapoint_weight = 1, acceleration_weight = 0, goal_weight = 0\<rparr>
   = (\<lparr>can_open = (\<lambda>name. False), contents = (\<lambda>name. None)\<rparr>, False)"
  by (simp add: writeToFile_cannot_open savePlotRolloutScript_cannot_open)

subsection \<open>Writing a task and reading it back\<close>

text \<open>
  Claim C9: for a task built by the constructor (for every dimension \<open>D\<close>, and so for
  \<open>D = 2\<close>) and a file that can be opened, \<^verbatim>\<open>writeToFile\<close> leaves a single row in the
  field order \<open>[viapoint(D), viapoint_time, viapoint_radius, goal(D), goal_time,
  viapoint_weight, acceleration_weight, goal_weight]\<close>; \<open>D\<close> is found again as
  \<open>(total_fields - 6) / 2\<close>; and \<^verbatim>\<open>readFromFile\<close> on that file returns the task itself
  when its viapoint time is not negative, and the task with the sentinel as viapoint
  time when the stored viapoint time is negative. Numbers are stored and parsed exactly
  in this model.
\<close>

theorem C9_write_read_round_trip:
  assumes "TaskViapoint8 vp vp_time vp_radius g g_time vp_weight acc_weight g_weight = Inr task"
    and "can_open fs filename"
  shows "loadMatrix (fst (writeToFile fs filename task)) filename =
           [vp @ [vp_time, vp_radius] @ g @ [g_time, vp_weight, acc_weight, g_weight]]
       \<and> int_div (int (length (vp @ [vp_time, vp_radius] @ g @
                                 [g_time, vp_weight, acc_weight, g_weight])) - 6) 2
           = int (length vp)
       \<and> readFromFile TIME_AT_MINIMUM_DIST (fst (writeToFile fs filename task)) filename =
           Inr (if vp_time < 0 then task\<lparr>viapoint_time := TIME_AT_MINIMUM_DIST\<rparr> else task)"
proof -
  from assms(1) have len: "length vp = length g" and rad: "0 \<le> vp_radius"
    and task: "task = \<lparr>viapoint = vp, viapoint_time = vp_time, viapoint_radius = vp_radius,
                     goal = g, goal_time = g_time,
                     viapoint_weight = vp_weight, acceleration_weight = acc_weight,
                     goal_weight = g_weight\<rparr>"
    by (auto simp: TaskViapoint8_def split: if_splits)
  have fields: "task_fields task = vp @ [vp_time, vp_radius] @ g @ [g_time, vp_weight, acc_weight, g_weight]"
    by (simp add: task task_fields_def)
  have load: "loadMatrix (fst (writeToFile fs filename task)) filename =
           [vp @ [vp_time, vp_radius] @ g @ [g_time, vp_weight, acc_weight, g_weight]]"
    using assms(2) by (simp only: loadMatrix_written fields)
  have n: "int_div (int (length (vp @ [vp_time, vp_radius] @ g @
                                 [g_time, vp_weight, acc_weight, g_weight])) - 6) 2
           = int (length vp)"
    using len by (simp add: int_div_2)
  have "readFromFile TIME_AT_MINIMUM_DIST (fst (writeToFile fs filename task)) filename =
          TaskViapoint8 vp (if vp_time < 0 then TIME_AT_MINIMUM_DIST else vp_time) vp_radius
            g g_time vp_weight acc_weight g_weight"
    using load len by (rule readFromFile_row)
  also have "\<dots> = Inr (if vp_time < 0 then task\<lparr>viapoint_time := TIME_AT_MINIMUM_DIST\<rparr> else task)"
    using len rad by (simp add: TaskViapoint8_def task)
  finally show ?thesis using load n by blast
qed

theorem C9_write_read_round_trip_witness:
  "readFromFile (- 1)
     (fst (writeToFile \<lparr>can_open = (\<lambda>name. True), contents = (\<lambda>name. None)\<rparr> ''task.txt''
        \<lparr>viapoint = [1, 2], viapoint_time = 3, viapoint_radius = 1 / 2, goal = [4, 5],
         goal_time = 6, viapoint_weight = 7, acceleration_weight = 8, goal_weight = 9\<rparr>))
     ''task.txt''
   = Inr \<lparr>viapoint = [1, 2], viapoint_time = 3, viapoint_radius = 1 / 2, goal = [4, 5],
         goal_time = 6, viapoint_weight = 7, acceleration_weight = 8, goal_weight = 9\<rparr>
   \<and> loadMatrix
     (fst (writeToFile \<lparr>can_open = (\<lambda>name. True), contents = (\<lambda>name. None)\<rparr> ''task.txt''
        \<lparr>viapoint = [1, 2], viapoint_time = 3, viapoint_radius = 1 / 2, goal = [4, 5],
         goal_time = 6, viapoint_weight = 7, acceleration_weight = 8, goal_weight = 9\<rparr>))
     ''task.txt'' = [[1, 2, 3, 1 / 2, 4, 5, 6, 7, 8, 9]]"
  using C9_write_read_round_trip [of "[1, 2]" 3 "1 / 2" "[4, 5]" 6 7 8 9
      "\<lparr>viapoint = [1, 2], viapoint_time = 3, viapoint_radius = 1 / 2, goal = [4, 5],
        goal_time = 6, viapoint_weight = 7, acceleration_weight = 8, goal_weight = 9\<rparr>"
      "\<lparr>can_open = (\<lambda>name. True), contents = (\<lambda>name. None)\<rparr>" "''task.txt''" "- 1"]
  by (simp add: TaskViapoint8_def)

section \<open>Properties of the gain schedules\<close>

subsection \<open>The gains of a bank\<close>

text \<open>
  With an empty bank and at least one dimension the first round of the loop reads
  \<^verbatim>\<open>function_approximators_gains_[0]\<close> of a vector of size \<open>0\<close>.
\<close>

lemma computeFunctionApproximatorOutput_empty_bank:
  assumes "function_approximators_gains this = []" and "0 < dim_orig ops (base this)"
  shows "computeFunctionApproximatorOutputExtendedDimensions ops h this phase_state = Inl Out_Of_Bounds"
proof -
  from assms(2) have "[0 ..< dim_orig ops (base this)] = 0 # [1 ..< dim_orig ops (base this)]"
    by (simp add: upt_conv_Cons)
  with assms(1) show ?thesis
    by (simp add: computeFunctionApproximatorOutputExtendedDimensions_def)
qed

text \<open>Slots that are \<^verbatim>\<open>NULL\<close> or untrained leave the output as it is.\<close>

lemma gains_loop_idle:
  assumes "list_all (\<lambda>i. i < length bank) dims" and "list_all (slot_idle h) bank"
  shows "gains_loop h bank phase_state dims fa_output = Inr fa_output"
  using assms
proof (induction dims)
  case Nil
  then show ?case by simp
next
  case (Cons i dims)
  then have "i < length bank" by simp
  with Cons.prems(2) have "slot_idle h (bank ! i)" by (simp add: list_all_length)
  with Cons \<open>i < length bank\<close> show ?case
    by (auto simp: slot_idle_def split: option.splits)
qed

text \<open>
  With one slot for each dimension, each of them \<^verbatim>\<open>NULL\<close> or untrained, the output is
  the \<open>T \<times> D\<close> matrix of zeros, for every number \<open>T\<close> of phase states.
\<close>

lemma computeFunctionApproximatorOutput_idle_bank:
  assumes "length (function_approximators_gains this) = dim_orig ops (base this)"
    and "list_all (slot_idle h) (function_approximators_gains this)"
  shows "computeFunctionApproximatorOutputExtendedDimensions ops h this phase_state =
           Inr (replicate (length phase_state) (replicate (dim_orig ops (base this)) 0))"
  unfolding computeFunctionApproximatorOutputExtendedDimensions_def Let_def
  using assms by (intro gains_loop_idle) (simp_all add: list_all_iff)

theorem computeFunctionApproximatorOutput_idle_bank_witness:
  "computeFunctionApproximatorOutputExtendedDimensions toy_collaborators
     [\<lparr>isTrained = False, predict = (\<lambda>phase. phase)\<rparr>]
     \<lparr>base = 0, function_approximators_gains = [Some 0]\<rparr> [1 / 2, 1 / 4] = Inr [[0], [0]]"
  using computeFunctionApproximatorOutput_idle_bank [of
      "\<lparr>base = 0, function_approximators_gains = [Some 0]\<rparr>" toy_collaborators
      "[\<lparr>isTrained = False, predict = (\<lambda>phase. phase)\<rparr>]" "[1 / 2, 1 / 4]"]
  by (simp add: toy_collaborators_def slot_idle_def numeral_eq_Suc)

text \<open>
  With one slot for each dimension, each of them \<^verbatim>\<open>NULL\<close> or a pointer to a live
  approximator, the loop fills the output column by column: row \<open>t\<close> holds, for each
  slot, its prediction at the phase state \<open>t\<close> if it is present and trained, and \<open>0\<close>
  otherwise.
\<close>

lemma partial_row_Suc:
  assumes "k < length bank"
  shows "(partial_row h bank k x)[k := slot_output h (bank ! k) x] = partial_row h bank (Suc k) x"
proof -
  from assms have "length bank - k = Suc (length bank - Suc k)" by simp
  then have "partial_row h bank k x =
      map (\<lambda>p. slot_output h p x) (take k bank) @ 0 # replicate (length bank - Suc k) 0"
    by (simp add: partial_row_def)
  moreover have "length (map (\<lambda>p. slot_output h p x) (take k bank)) = k"
    using assms by simp
  ultimately have "(partial_row h bank k x)[k := slot_output h (bank ! k) x] =
      map (\<lambda>p. slot_output h p x) (take k bank) @
        slot_output h (bank ! k) x # replicate (length bank - Suc k) 0"
    by (metis list_update_length)
  with assms show ?thesis
    by (simp add: partial_row_def take_Suc_conv_app_nth)
qed

lemma partial_row_idle:
  assumes "k < length bank" and "slot_output h (bank ! k) x = 0"
  shows "partial_row h bank k x = partial_row h bank (Suc k) x"
proof -
  have "(partial_row h bank k x)[k := slot_output h (bank ! k) x] = partial_row h bank k x"
    using assms by (simp add: partial_row_def nth_append list_update_same_conv)
  with partial_row_Suc [OF assms(1), of h x] show ?thesis by simp
qed

lemma gains_loop_upt:
  assumes live: "\<forall>a. Some a \<in> set bank \<longrightarrow> a < length h"
  shows "k \<le> length bank \<Longrightarrow>
     gains_loop h bank phase_state [k ..< length bank] (map (partial_row h bank k) phase_state) =
       Inr (map (\<lambda>x. map (\<lambda>p. slot_output h p x) bank) phase_state)"
proof (induction "length bank - k" arbitrary: k)
  case 0
  then have "k = length bank" by simp
  then show ?case by (simp add: partial_row_def)
next
  case (Suc n)
  then have k: "k < length bank" by simp
  then have upt: "[k ..< length bank] = k # [Suc k ..< length bank]"
    by (simp add: upt_conv_Cons)
  have IH: "gains_loop h bank phase_state [Suc k ..< length bank]
              (map (partial_row h bank (Suc k)) phase_state) =
            Inr (map (\<lambda>x. map (\<lambda>p. slot_output h p x) bank) phase_state)"
    using Suc.hyps(1) [of "Suc k"] Suc.hyps(2) k by simp
  show ?case
  proof (cases "bank ! k")
    case None
    then have "partial_row h bank k x = partial_row h bank (Suc k) x" for x
      using k by (intro partial_row_idle) (simp_all add: slot_output_def)
    then have eq: "partial_row h bank k = partial_row h bank (Suc k)"
      by (rule ext)
    from None k IH show ?thesis by (simp add: upt eq)
  next
    case (Some a)
    with k have "Some a \<in> set bank" by (metis nth_mem)
    with live have a: "a < length h" by simp
    show ?thesis
    proof (cases "isTrained (h ! a)")
      case False
      with Some have "partial_row h bank k x = partial_row h bank (Suc k) x" for x
        using k by (intro partial_row_idle) (simp_all add: slot_output_def)
      then have eq: "partial_row h bank k = partial_row h bank (Suc k)"
        by (rule ext)
      from Some False k a IH show ?thesis by (simp add: upt eq)
    next
      case True
      have "set_col (map (partial_row h bank k) phase_state) k (map (predict (h ! a)) phase_state)
            = map (\<lambda>x. (partial_row h bank k x)[k := predict (h ! a) x]) phase_state"
        by (simp add: set_col_def map2_map_map)
      also have "\<dots> = map (partial_row h bank (Suc k)) phase_state"
        using partial_row_Suc [OF k, of h] Some True by (simp add: slot_output_def)
      finally show ?thesis using Some True k a IH by (simp add: upt)
    qed
  qed
qed

lemma computeFunctionApproximatorOutput_columns:
  assumes "length (function_approximators_gains this) = dim_orig ops (base this)"
    and "\<forall>a. Some a \<in> set (function_approximators_gains this) \<longrightarrow> a < length h"
  shows "computeFunctionApproximatorOutputExtendedDimensions ops h this phase_state =
           Inr (map (\<lambda>x. map (\<lambda>p. slot_output h p x) (function_approximators_gains this))
                  phase_state)"
proof -
  have "partial_row h (function_approximators_gains this) 0 =
        (\<lambda>x. replicate (dim_orig ops (base this)) 0)"
    using assms(1) by (intro ext) (simp add: partial_row_def)
  then have "replicate (length phase_state) (replicate (dim_orig ops (base this)) 0) =
        map (partial_row h (function_approximators_gains this) 0) phase_state"
    by (simp add: map_replicate_const)
  then show ?thesis
    using gains_loop_upt [OF assms(2), of 0 phase_state] assms(1)
    by (simp add: computeFunctionApproximatorOutputExtendedDimensions_def)
qed


text \<open>
  Claim C4: for an empty bank (the extension constructed from an empty list), or a bank
  whose slots are all absent or untrained,
  \<^verbatim>\<open>computeFunctionApproximatorOutputExtendedDimensions\<close> returns the \<open>T \<times> D\<close> matrix of
  zeros without reading any approximator. The code, on the extension that the
  constructor builds from the empty list over a base primitive of one dimension, and
  one phase state: the bank has length \<open>0\<close> and the loop reads slot \<open>0\<close> of it.
\<close>

theorem C4_empty_bank_out_of_bounds:
  "DmpWithGainSchedules_new [] (0::nat) [] = Inr ([], \<lparr>base = 0, function_approximators_gains = []\<rparr>)
   \<and> dim_orig toy_collaborators 0 = 1
   \<and> computeFunctionApproximatorOutputExtendedDimensions toy_collaborators []
        \<lparr>base = 0, function_approximators_gains = []\<rparr> [1 / 2] = Inl Out_Of_Bounds"
  by (simp add: DmpWithGainSchedules_new_def initFunctionApproximatorsExtDims_def
        computeFunctionApproximatorOutput_empty_bank toy_collaborators_def)

subsection \<open>Cloning\<close>

text \<open>
  On a bank whose slots all point to live function approximators, \<^verbatim>\<open>clone\<close> succeeds.
  It allocates two copies of each approximator (the ones it pushes back, and the ones
  the constructor makes of those); the bank of the clone holds the second copies, at
  addresses that did not exist before, and the heap that existed before is unchanged.
\<close>

lemma clone_slots_present:
  "list_all (\<lambda>a. a < length h) addrs \<Longrightarrow>
     clone_slots h (map Some addrs) pushed =
       Inr (h @ map ((!) h) addrs, pushed @ map Some [length h ..< length h + length addrs])"
proof (induction addrs arbitrary: h pushed)
  case Nil
  then show ?case by simp
next
  case (Cons a addrs)
  then have a: "a < length h" and rest: "list_all (\<lambda>a. a < length h) addrs" by simp_all
  from rest have rest': "list_all (\<lambda>b. b < length (h @ [h ! a])) addrs"
    by (simp add: list_all_iff less_Suc_eq)
  have same: "map ((!) (h @ [h ! a])) addrs = map ((!) h) addrs"
    using rest by (simp add: list_all_iff nth_append)
  show ?case
    using a Cons.IH [OF rest', of "pushed @ [Some (length h)]"]
    by (simp add: fa_clone_def bind_error_def same upt_conv_Cons del: upt_Suc)
qed

lemma init_slots_present:
  "list_all (\<lambda>a. a < length h) addrs \<Longrightarrow>
     init_slots h (map Some addrs) copied =
       Inr (h @ map ((!) h) addrs, copied @ map Some [length h ..< length h + length addrs])"
proof (induction addrs arbitrary: h copied)
  case Nil
  then show ?case by simp
next
  case (Cons a addrs)
  then have a: "a < length h" and rest: "list_all (\<lambda>a. a < length h) addrs" by simp_all
  from rest have rest': "list_all (\<lambda>b. b < length (h @ [h ! a])) addrs"
    by (simp add: list_all_iff less_Suc_eq)
  have same: "map ((!) (h @ [h ! a])) addrs = map ((!) h) addrs"
    using rest by (simp add: list_all_iff nth_append)
  show ?case
    using a Cons.IH [OF rest', of "copied @ [Some (length h)]"]
    by (simp add: fa_clone_def bind_error_def same upt_conv_Cons del: upt_Suc)
qed

lemma clone_present_bank:
  assumes "function_approximators_gains this = map Some addrs"
    and "list_all (\<lambda>a. a < length h) addrs"
  shows "clone h this =
           Inr (h @ map ((!) h) addrs @ map ((!) h) addrs,
                \<lparr>base = base this,
                 function_approximators_gains =
                   map Some [length h + length addrs ..< length h + 2 * length addrs]\<rparr>)"
proof (cases "addrs = []")
  case True
  with assms show ?thesis
    by (simp add: clone_def bind_error_def DmpWithGainSchedules_new_def
          initFunctionApproximatorsExtDims_def)
next
  case False
  let ?n = "length addrs"
  let ?h1 = "h @ map ((!) h) addrs"
  let ?mid = "[length h ..< length h + ?n]"
  have mid: "list_all (\<lambda>a. a < length ?h1) ?mid" by (simp add: list_all_iff)
  have objs: "map ((!) ?h1) ?mid = map ((!) h) addrs"
    by (rule nth_equalityI) (simp_all add: nth_append)
  have "clone_slots h (map Some addrs) [] = Inr (?h1, map Some ?mid)"
    using clone_slots_present [OF assms(2), of "[]"] by simp
  moreover have "init_slots ?h1 (map Some ?mid) [] =
      Inr (?h1 @ map ((!) h) addrs, map Some [length ?h1 ..< length ?h1 + length ?mid])"
    using init_slots_present [OF mid, of "[]"] by (simp only: objs append_Nil)
  ultimately show ?thesis
    using False assms(1)
    by (simp add: clone_def bind_error_def DmpWithGainSchedules_new_def
          initFunctionApproximatorsExtDims_def mult_2 add.assoc)
qed

text \<open>
  Claim C5: cloning the extension succeeds for every bank, absent slots preserved as
  absent. The code, on the extension that the constructor builds from a list with one
  absent slot (\<^verbatim>\<open>initFunctionApproximatorsExtDims\<close> keeps it \<^verbatim>\<open>NULL\<close>): \<^verbatim>\<open>clone\<close> calls
  \<^verbatim>\<open>function_approximators_gains_[0]->clone()\<close> through the \<^verbatim>\<open>NULL\<close> pointer.
\<close>

theorem C5_clone_null_slot:
  "DmpWithGainSchedules_new [] (0::nat) [None]
     = Inr ([], \<lparr>base = 0, function_approximators_gains = [None]\<rparr>)
   \<and> clone [] \<lparr>base = 0::nat, function_approximators_gains = [None]\<rparr> = Inl Null_Dereference"
  by (simp add: DmpWithGainSchedules_new_def initFunctionApproximatorsExtDims_def
        bind_error_def clone_def fa_clone_def)

subsection \<open>Training\<close>

text \<open>
  Claim C6, as amended: when \<^verbatim>\<open>train\<close> is called with a misc matrix whose number of
  columns differs from the number of slots, or with an empty bank, the call ends in a
  failed check after the base primitive has been trained and before any function
  approximator of the bank is trained: the heap of approximators is unchanged, and the
  base part of the object is the trained one.
\<close>

theorem C6_train_checks_after_base_training:
  assumes "cols (traj_misc trajectory) \<noteq> length (function_approximators_gains this)
           \<or> function_approximators_gains this = []"
  shows "\<exists>e. train ops h this trajectory save_directory overwrite =
           (Some e, h, this\<lparr>base := Dmp_train ops (base this) trajectory save_directory overwrite\<rparr>)"
  using assms
  by (auto simp: train_def Let_def split: prod.splits sum.splits)

theorem C6_train_checks_after_base_training_witness:
  "train toy_collaborators [] \<lparr>base = 0, function_approximators_gains = []\<rparr>
     \<lparr>traj_ts = [0], traj_ys = [[0]], traj_yds = [[0]], traj_ydds = [[0]], traj_misc = [[1]]\<rparr>
     [] False
   = (Some Assertion_Failed, [], \<lparr>base = 1, function_approximators_gains = []\<rparr>)"
  using C6_train_checks_after_base_training [of
      "\<lparr>traj_ts = [0], traj_ys = [[0]], traj_yds = [[0]], traj_ydds = [[0]], traj_misc = [[1]]\<rparr>"
      "\<lparr>base = 0, function_approximators_gains = []\<rparr>" toy_collaborators "[]" "[]" False]
  by (simp add: train_def toy_collaborators_def PHASEM_def cols_def)

text \<open>
  The claim as it was stated, that the violation is detected before the base primitive
  is trained, fails on an empty bank: when the assertion fails the base primitive,
  whose state counted \<open>0\<close> trainings, counts \<open>1\<close>.
\<close>

theorem C6_base_trained_before_check_counterexample:
  "train toy_collaborators [] \<lparr>base = 0, function_approximators_gains = []\<rparr>
     \<lparr>traj_ts = [0], traj_ys = [[0]], traj_yds = [[0]], traj_ydds = [[0]], traj_misc = [[1]]\<rparr>
     [] False
   = (Some Assertion_Failed, [], \<lparr>base = Dmp_train toy_collaborators 0
        \<lparr>traj_ts = [0], traj_ys = [[0]], traj_yds = [[0]], traj_ydds = [[0]], traj_misc = [[1]]\<rparr>
        [] False, function_approximators_gains = []\<rparr>)
   \<and> Dmp_train toy_collaborators 0
        \<lparr>traj_ts = [0], traj_ys = [[0]], traj_yds = [[0]], traj_ydds = [[0]], traj_misc = [[1]]\<rparr>
        [] False = 1
   \<and> (1::nat) \<noteq> 0"
  by (simp add: train_def toy_collaborators_def PHASEM_def cols_def)

subsection \<open>A clone is independent of the original\<close>

text \<open>
  \<^verbatim>\<open>train\<close> changes the heap only at the addresses in the bank of the object it is
  called on, and the gains depend on the heap only at the addresses in the bank.
\<close>

lemma train_slots_frame:
  "train_slots ops xs_phase targets save_directory overwrite n h slots dd = (outcome, h') \<Longrightarrow>
     Some a \<notin> set slots \<Longrightarrow> length h' = length h \<and> h' ! a = h ! a"
proof (induction slots arbitrary: h dd)
  case Nil
  then show ?case by simp
next
  case (Cons p slots)
  show ?case
  proof (cases p)
    case None
    with Cons show ?thesis by simp
  next
    case (Some b)
    with Cons.prems have ne: "b \<noteq> a" and rest: "Some a \<notin> set slots" by auto
    show ?thesis
    proof (cases "b < length h")
      case False
      with Some Cons.prems show ?thesis by simp
    next
      case True
      show ?thesis
      proof (cases "isTrained (h ! b)")
        case t: True
        with Some True Cons.prems(1) Cons.IH [OF _ rest] ne show ?thesis
          by (fastforce simp: Let_def)
      next
        case f: False
        with Some True Cons.prems(1) Cons.IH [OF _ rest] ne show ?thesis
          by (fastforce simp: Let_def)
      qed
    qed
  qed
qed

lemma train_frame:
  assumes "train ops h this trajectory save_directory overwrite = (outcome, h', this')"
    and "Some a \<notin> set (function_approximators_gains this)"
  shows "length h' = length h \<and> h' ! a = h ! a
       \<and> function_approximators_gains this' = function_approximators_gains this"
  using assms
  by (auto simp: train_def Let_def split: prod.splits sum.splits if_splits
        dest: train_slots_frame)

lemma gains_loop_same_heap:
  assumes "\<forall>a. Some a \<in> set bank \<longrightarrow> a < length h \<and> a < length h' \<and> h' ! a = h ! a"
  shows "gains_loop h' bank phase_state dims fa_output = gains_loop h bank phase_state dims fa_output"
proof (induction dims arbitrary: fa_output)
  case Nil
  then show ?case by simp
next
  case (Cons i dims)
  show ?case
  proof (cases "i < length bank")
    case False
    then show ?thesis by simp
  next
    case True
    show ?thesis
    proof (cases "bank ! i")
      case None
      with True Cons.IH show ?thesis by simp
    next
      case (Some a)
      with True have "Some a \<in> set bank" by (metis nth_mem)
      with assms have "a < length h" "a < length h'" "h' ! a = h ! a" by auto
      with True Some Cons.IH show ?thesis by simp
    qed
  qed
qed

text \<open>
  So for a bank whose slots are all present: after cloning the extension and training
  the clone, the original computes the same gains as before.
\<close>

theorem clone_then_train_isolation:
  assumes bank: "function_approximators_gains this = map Some addrs"
    and live: "list_all (\<lambda>a. a < length h) addrs"
    and cl: "clone h this = Inr (h1, copy)"
    and tr: "train ops h1 copy trajectory save_directory overwrite = (outcome, h2, copy')"
  shows "computeFunctionApproximatorOutputExtendedDimensions ops h2 this phase_state =
         computeFunctionApproximatorOutputExtendedDimensions ops h this phase_state"
proof -
  let ?n = "length addrs"
  from clone_present_bank [OF bank live] cl
  have h1: "h1 = h @ map ((!) h) addrs @ map ((!) h) addrs"
    and cb: "function_approximators_gains copy = map Some [length h + ?n ..< length h + 2 * ?n]"
    by simp_all
  have keep: "length h2 = length h1 \<and> h2 ! a = h1 ! a" if "a < length h" for a
  proof -
    from that have "Some a \<notin> set (function_approximators_gains copy)"
      by (auto simp: cb)
    with tr show ?thesis using train_frame by blast
  qed
  have "\<forall>a. Some a \<in> set (function_approximators_gains this) \<longrightarrow>
          a < length h \<and> a < length h2 \<and> h2 ! a = h ! a"
  proof (intro allI impI)
    fix a assume "Some a \<in> set (function_approximators_gains this)"
    then have a: "a < length h" using live by (auto simp: bank list_all_iff)
    with keep [OF a] show "a < length h \<and> a < length h2 \<and> h2 ! a = h ! a"
      by (simp add: h1 nth_append)
  qed
  then show ?thesis
    by (simp add: computeFunctionApproximatorOutputExtendedDimensions_def gains_loop_same_heap)
qed

theorem clone_then_train_isolation_witness:
  "clone [\<lparr>isTrained = True, predict = (\<lambda>phase. phase)\<rparr>]
     \<lparr>base = 0::nat, function_approximators_gains = [Some 0]\<rparr>
   = Inr ([\<lparr>isTrained = True, predict = (\<lambda>phase. phase)\<rparr>,
           \<lparr>isTrained = True, predict = (\<lambda>phase. phase)\<rparr>,
           \<lparr>isTrained = True, predict = (\<lambda>phase. phase)\<rparr>],
          \<lparr>base = 0, function_approximators_gains = [Some 2]\<rparr>)
   \<and> train toy_collaborators
       [\<lparr>isTrained = True, predict = (\<lambda>phase. phase)\<rparr>,
        \<lparr>isTrained = True, predict = (\<lambda>phase. phase)\<rparr>,
        \<lparr>isTrained = True, predict = (\<lambda>phase. phase)\<rparr>]
       \<lparr>base = 0, function_approximators_gains = [Some 2]\<rparr>
       \<lparr>traj_ts = [0], traj_ys = [[0]], traj_yds = [[0]], traj_ydds = [[0]], traj_misc = [[7]]\<rparr>
       [] False
     = (None,
        [\<lparr>isTrained = True, predict = (\<lambda>phase. phase)\<rparr>,
         \<lparr>isTrained = True, predict = (\<lambda>phase. phase)\<rparr>,
         \<lparr>isTrained = True, predict = (\<lambda>phase. 7)\<rparr>],
        \<lparr>base = 1, function_approximators_gains = [Some 2]\<rparr>)
   \<and> computeFunctionApproximatorOutputExtendedDimensions toy_collaborators
       [\<lparr>isTrained = True, predict = (\<lambda>phase. phase)\<rparr>,
        \<lparr>isTrained = True, predict = (\<lambda>phase. phase)\<rparr>,
        \<lparr>isTrained = True, predict = (\<lambda>phase. 7)\<rparr>]
       \<lparr>base = 0, function_approximators_gains = [Some 0]\<rparr> [1 / 2]
     = computeFunctionApproximatorOutputExtendedDimensions toy_collaborators
       [\<lparr>isTrained = True, predict = (\<lambda>phase. phase)\<rparr>]
       \<lparr>base = 0, function_approximators_gains = [Some 0]\<rparr> [1 / 2]"
proof -
  have cl: "clone [\<lparr>isTrained = True, predict = (\<lambda>phase. phase)\<rparr>]
     \<lparr>base = 0::nat, function_approximators_gains = [Some 0]\<rparr>
   = Inr ([\<lparr>isTrained = True, predict = (\<lambda>phase. phase)\<rparr>,
           \<lparr>isTrained = True, predict = (\<lambda>phase. phase)\<rparr>,
           \<lparr>isTrained = True, predict = (\<lambda>phase. phase)\<rparr>],
          \<lparr>base = 0, function_approximators_gains = [Some 2]\<rparr>)"
    by (simp add: clone_def fa_clone_def bind_error_def DmpWithGainSchedules_new_def
          initFunctionApproximatorsExtDims_def)
  have tr: "train toy_collaborators
       [\<lparr>isTrained = True, predict = (\<lambda>phase. phase)\<rparr>,
        \<lparr>isTrained = True, predict = (\<lambda>phase. phase)\<rparr>,
        \<lparr>isTrained = True, predict = (\<lambda>phase. phase)\<rparr>]
       \<lparr>base = 0, function_approximators_gains = [Some 2]\<rparr>
       \<lparr>traj_ts = [0], traj_ys = [[0]], traj_yds = [[0]], traj_ydds = [[0]], traj_misc = [[7]]\<rparr>
       [] False
     = (None,
        [\<lparr>isTrained = True, predict = (\<lambda>phase. phase)\<rparr>,
         \<lparr>isTrained = True, predict = (\<lambda>phase. phase)\<rparr>,
         \<lparr>isTrained = True, predict = (\<lambda>phase. 7)\<rparr>],
        \<lparr>base = 1, function_approximators_gains = [Some 2]\<rparr>)"
    by (simp add: train_def toy_collaborators_def PHASEM_def cols_def col_def numeral_eq_Suc)
  have bank: "function_approximators_gains \<lparr>base = 0::nat, function_approximators_gains = [Some 0]\<rparr>
                = map Some [0]"
    by simp
  have live: "list_all (\<lambda>a. a < length [\<lparr>isTrained = True, predict = (\<lambda>phase. phase)\<rparr>]) [0]"
    by simp
  from clone_then_train_isolation [OF bank live cl tr, of "[1 / 2]"] cl tr
  show ?thesis by simp
qed

subsection \<open>An integration step\<close>

lemma concat_transpose_row: "concat (transpose [r]) = r"
  by (induction r) simp_all

lemma take_one_drop: "i < length v \<Longrightarrow> take (Suc 0) (drop i v) = [v ! i]"
  using Cons_nth_drop_Suc [of i v] by (metis take_Suc_Cons take_0)

lemma PHASE_eq:
  "PHASE ops this x =
     (if 3 * dim_orig ops (base this) < length x
      then Inr [x ! (3 * dim_orig ops (base this))]
      else Inl Eigen_Assertion)"
proof (cases "3 * dim_orig ops (base this) < length x")
  case True
  then show ?thesis
    unfolding PHASE_def using segment_nat [of "3 * dim_orig ops (base this)" 1 x]
    by (simp add: take_one_drop)
next
  case False
  then show ?thesis by (simp add: PHASE_def segment_def)
qed

text \<open>
  Claim C7: for every \<open>dt\<close> and current state \<open>x\<close>, \<^verbatim>\<open>integrateStep\<close> returns the
  updated state and derivative of one step of the base primitive, and the gains are
  those computed from the phase of the updated state, the entry at offset
  \<open>3 * dim_orig()\<close> of \<open>x_updated\<close> (the call stops in Eigen's range check if
  \<open>x_updated\<close> has no such entry); the state \<open>x\<close> enters only through the step of the
  base primitive. With one slot for each dimension, each \<^verbatim>\<open>NULL\<close> or live, the gain of a
  slot is its prediction at the updated phase if it is present and trained, and \<open>0\<close>
  otherwise.
\<close>

theorem C7_gains_from_updated_phase:
  assumes "Dmp_integrateStep ops (base this) dt x = (x_updated, xd_updated)"
  shows "integrateStep ops h this dt x =
           (if 3 * dim_orig ops (base this) < length x_updated
            then (case computeFunctionApproximatorOutputExtendedDimensions ops h this
                         [x_updated ! (3 * dim_orig ops (base this))] of
                    Inl e \<Rightarrow> Inl e
                  | Inr gains_prealloc \<Rightarrow>
                      Inr (x_updated, xd_updated, concat (transpose gains_prealloc)))
            else Inl Eigen_Assertion)
       \<and> (3 * dim_orig ops (base this) < length x_updated
            \<and> length (function_approximators_gains this) = dim_orig ops (base this)
            \<and> (\<forall>a. Some a \<in> set (function_approximators_gains this) \<longrightarrow> a < length h) \<longrightarrow>
          integrateStep ops h this dt x =
            Inr (x_updated, xd_updated,
                 map (\<lambda>p. slot_output h p (x_updated ! (3 * dim_orig ops (base this))))
                   (function_approximators_gains this)))"
proof -
  have general: "integrateStep ops h this dt x =
           (if 3 * dim_orig ops (base this) < length x_updated
            then (case computeFunctionApproximatorOutputExtendedDimensions ops h this
                         [x_updated ! (3 * dim_orig ops (base this))] of
                    Inl e \<Rightarrow> Inl e
                  | Inr gains_prealloc \<Rightarrow>
                      Inr (x_updated, xd_updated, concat (transpose gains_prealloc)))
            else Inl Eigen_Assertion)"
    using assms by (simp add: integrateStep_def PHASE_eq bind_error_def split: sum.splits)
  moreover have "integrateStep ops h this dt x =
            Inr (x_updated, xd_updated,
                 map (\<lambda>p. slot_output h p (x_updated ! (3 * dim_orig ops (base this))))
                   (function_approximators_gains this))"
    if "3 * dim_orig ops (base this) < length x_updated"
      and "length (function_approximators_gains this) = dim_orig ops (base this)"
      and "\<forall>a. Some a \<in> set (function_approximators_gains this) \<longrightarrow> a < length h"
    using computeFunctionApproximatorOutput_columns [OF that(2,3),
        of "[x_updated ! (3 * dim_orig ops (base this))]"] that(1)
    by (simp add: general concat_transpose_row)
  ultimately show ?thesis by blast
qed

text \<open>
  One step from the phase \<open>1\<close> to the phase \<open>1/2\<close>, with a trained approximator that
  returns its input: the gain is \<open>1/2\<close>, the value at the updated phase.
\<close>

theorem C7_gains_from_updated_phase_witness:
  "integrateStep toy_collaborators [\<lparr>isTrained = True, predict = (\<lambda>phase. phase)\<rparr>]
     \<lparr>base = 0, function_approximators_gains = [Some 0]\<rparr> (1 / 100) [0, 0, 0, 1]
   = Inr ([0, 0, 0, 1 / 2], [0, 0, 0, - 50], [1 / 2])"
  using C7_gains_from_updated_phase [of toy_collaborators
      "\<lparr>base = 0, function_approximators_gains = [Some 0]\<rparr>" "1 / 100" "[0, 0, 0, 1]"
      "[0, 0, 0, 1 / 2]" "[0, 0, 0, - 50]" "[\<lparr>isTrained = True, predict = (\<lambda>phase. phase)\<rparr>]"]
  by (simp add: toy_collaborators_def slot_output_def
        computeFunctionApproximatorOutputExtendedDimensions_def set_col_def)

end
